theory Spec2Isabelle
  imports Complex_Main "HOL-Library.Log_Nat"
begin

section \<open>Payment verification and replay protection\<close>

text \<open>
  The repository holds two implementations of the payment gate:
  \<^item> \<^verbatim>\<open>PaymentTracker.validatePayment\<close> (services/paymentTracker.ts) behind
    \<^verbatim>\<open>validatePaymentMiddleware\<close> (middleware/paymentMiddleware.ts), working on
    \<^verbatim>\<open>bigint\<close> lamports; no route mounts it;
  \<^item> \<^verbatim>\<open>validateSOLPayment\<close> (middleware/simplePaymentMiddleware.ts) with
    \<^verbatim>\<open>SimplePaymentTracker\<close> (services/simplePaymentTracker.ts), working on doubles
    in SOL, the one mounted by the routes (routes/healthRoutes.ts).
  Both talk to the table \<^verbatim>\<open>payment_signatures\<close> (database/schema.sql) and to the chain
  node through \<^verbatim>\<open>Connection.getTransaction\<close>. The table and the node are the state
  and the environment of the model; every function takes the world and returns it.
\<close>

subsection \<open>Data model\<close>

text \<open>
  \<^verbatim>\<open>interface PaymentRecord\<close>. Dates are milliseconds, \<^verbatim>\<open>bigint\<close> is \<open>int\<close>,
  optional fields are options.
\<close>

record PaymentRecord =
  id :: "nat option"
  signature :: string
  network :: string
  amount :: int
  asset :: string
  senderAddress :: string
  receiverAddress :: string
  apiEndpoint :: string
  blockTime :: "int option"
  firstUsedAt :: nat
  usageCount :: nat
  ipAddress :: "string option"
  userAgent :: "string option"

text \<open>
  The texts carried in the \<^verbatim>\<open>error\<close> field of results and responses, one constructor
  for each template of the source:
  \<^item> \<open>AlreadyUsed\<close>: \<^verbatim>\<open>Payment signature already used (replay attack prevented)\<close>
  \<^item> \<open>TxNotFound\<close>: \<^verbatim>\<open>Transaction not found on blockchain\<close>
  \<^item> \<open>TxFailed\<close>: \<^verbatim>\<open>Transaction failed on blockchain\<close>
  \<^item> \<open>WrongReceiver\<close>: \<^verbatim>\<open>Payment not sent to expected receiver address\<close>
  \<^item> \<open>NoPositiveChange\<close>: \<^verbatim>\<open>No positive balance change detected for receiver\<close>
  \<^item> \<open>BlockchainValidationFailed m\<close>: \<^verbatim>\<open>Blockchain validation failed: \<close> followed by \<open>m\<close>
  \<^item> \<open>WrongAsset e g\<close>: \<^verbatim>\<open>Wrong asset type. Expected: e, Got: g\<close>
  \<^item> \<open>InsufficientAmount e g\<close>: \<^verbatim>\<open>Insufficient payment amount. Expected: e, Got: g\<close>
  \<^item> \<open>PaymentValidationFailed m\<close>: \<^verbatim>\<open>Payment validation failed: \<close> followed by \<open>m\<close>
\<close>

datatype errorMsg =
    AlreadyUsed
  | TxNotFound
  | TxFailed
  | WrongReceiver
  | NoPositiveChange
  | BlockchainValidationFailed string
  | WrongAsset string string
  | InsufficientAmount int int
  | PaymentValidationFailed string

text \<open>\<^verbatim>\<open>interface PaymentValidationResult\<close>.\<close>

record PaymentValidationResult =
  isValid :: bool
  isFirstUse :: bool
  error :: "errorMsg option"
  paymentRecord :: "PaymentRecord option"

subsection \<open>The chain node\<close>

datatype commitment = Confirmed | Finalized

text \<open>
  What \<^verbatim>\<open>getTransaction\<close> answers: the fields of the transaction record the code
  reads. \<open>accountKeys\<close> is what \<^verbatim>\<open>message.getAccountKeys()\<close> gives, the static keys and
  the keys loaded from lookup tables (in base58), or \<open>None\<close> when that call throws.
  Balances are lamports held in JavaScript numbers; they are taken as integers that
  a double holds exactly, so that the difference of two of them is exact.
\<close>

record txMeta =
  err :: "string option"
  preBalances :: "int list"
  postBalances :: "int list"

record txInfo =
  meta :: "txMeta option"
  accountKeys :: "(string list \<times> string list) option"
  txBlockTime :: "int option"

datatype rpcResult = RpcError string | RpcNull | RpcTx txInfo

subsection \<open>JavaScript numbers\<close>

text \<open>
  A JavaScript \<^verbatim>\<open>number\<close> is an IEEE-754 double. A finite double is modelled by the
  rational it stands for (the sign of zero is not kept). Every arithmetic operation
  gives the double nearest to its exact result, a tie going to the even significand;
  \<open>fl\<close> is that rounding for the 53-bit significand of binary64, with no bound on
  the exponent. A result of \<open>fl\<close> with an exponent of 1024 or more is an overflow,
  which the multiplication below turns into an infinity. Below \<^verbatim>\<open>2^-1022\<close> binary64
  has fewer bits than \<open>fl\<close> keeps; no value of this program that is compared or
  stored is that small without being zero (a quotient of lamports by \<^verbatim>\<open>1e9\<close> is
  zero or at least \<^verbatim>\<open>1e-9\<close> in magnitude, and \<^verbatim>\<open>Math.floor\<close> of a product of
  magnitude below one does not depend on its last bits).

  For a positive \<open>x\<close>, \<open>floorLog2 x\<close> is the exponent \<open>e\<close> with
  \<open>2 powi e \<le> x < 2 powi (e + 1)\<close> and \<open>ulp x\<close> the distance between the doubles
  around \<open>x\<close>.
\<close>

definition floorLog2 :: "rat \<Rightarrow> int" where
  "floorLog2 x = (if 1 \<le> x then bitlen \<lfloor>x\<rfloor> - 1 else - bitlen (\<lceil>1 / x\<rceil> - 1))"

definition roundHalfEven :: "rat \<Rightarrow> int" where
  "roundHalfEven q =
     (let f = \<lfloor>q\<rfloor>; r = q - of_int f
      in if r < 1 / 2 then f
         else if 1 / 2 < r then f + 1
         else if even f then f else f + 1)"

definition ulp :: "rat \<Rightarrow> rat" where
  "ulp x = 2 powi (floorLog2 x - 52)"

definition fl :: "rat \<Rightarrow> rat" where
  "fl x =
     (if x = 0 then 0
      else if 0 < x then of_int (roundHalfEven (x / ulp x)) * ulp x
      else - (of_int (roundHalfEven (- x / ulp (- x))) * ulp (- x)))"

text \<open>The values of the type \<^verbatim>\<open>number\<close>.\<close>

datatype number = Finite rat | NaN | Infinity | NegInfinity

text \<open>The rounded result \<open>r\<close> is too large for a double.\<close>

definition overflows :: "rat \<Rightarrow> bool" where
  "overflows r = (r \<noteq> 0 \<and> 1024 \<le> floorLog2 \<bar>r\<bar>)"

text \<open>\<^verbatim>\<open>x * 1e9\<close>.\<close>

definition times1e9 :: "number \<Rightarrow> number" where
  "times1e9 x =
     (case x of
        Finite p \<Rightarrow>
          (let r = fl (p * 1000000000)
           in if overflows r then (if 0 < r then Infinity else NegInfinity)
              else Finite r)
      | NaN \<Rightarrow> NaN
      | Infinity \<Rightarrow> Infinity
      | NegInfinity \<Rightarrow> NegInfinity)"

text \<open>\<^verbatim>\<open>Math.floor(x)\<close>: exact, the floor of a double is a double.\<close>

definition mathFloor :: "number \<Rightarrow> number" where
  "mathFloor x =
     (case x of
        Finite p \<Rightarrow> Finite (of_int \<lfloor>p\<rfloor>)
      | NaN \<Rightarrow> NaN
      | Infinity \<Rightarrow> Infinity
      | NegInfinity \<Rightarrow> NegInfinity)"

text \<open>
  \<^verbatim>\<open>BigInt(x)\<close>: the integer, or \<open>None\<close> for the \<^verbatim>\<open>RangeError\<close> thrown when
  \<open>x\<close> is not an integer.
\<close>

definition bigIntOf :: "number \<Rightarrow> int option" where
  "bigIntOf x =
     (case x of
        Finite p \<Rightarrow> if of_int \<lfloor>p\<rfloor> = p then Some \<lfloor>p\<rfloor> else None
      | NaN \<Rightarrow> None
      | Infinity \<Rightarrow> None
      | NegInfinity \<Rightarrow> None)"

text \<open>\<^verbatim>\<open>x < y\<close> for a finite \<open>x\<close>; every comparison with \<^verbatim>\<open>NaN\<close> is false.\<close>

definition numberLess :: "rat \<Rightarrow> number \<Rightarrow> bool" where
  "numberLess x y =
     (case y of
        Finite q \<Rightarrow> x < q
      | NaN \<Rightarrow> False
      | Infinity \<Rightarrow> True
      | NegInfinity \<Rightarrow> False)"

text \<open>
  \<^verbatim>\<open>d / 1e9\<close> for a number of lamports \<open>d\<close> (\<^verbatim>\<open>// Convert lamports to SOL\<close>), and
  \<^verbatim>\<open>Math.floor(amount * 1e9)\<close> for a finite amount \<open>sol\<close> of SOL.
\<close>

definition lamportsToSol :: "int \<Rightarrow> rat" where
  "lamportsToSol d = fl (of_int d / 1000000000)"

definition solToLamports :: "rat \<Rightarrow> int" where
  "solToLamports sol = \<lfloor>fl (sol * 1000000000)\<rfloor>"

subsection \<open>World and environment\<close>

datatype dbStatement = SelectSig string | InsertSig string | UpdateUsage string

datatype chainEvent = GetTransaction string commitment | Sleep nat

text \<open>
  The world: the rows of \<^verbatim>\<open>payment_signatures\<close> by signature (the column is
  \<^verbatim>\<open>UNIQUE\<close>), the next value of the \<^verbatim>\<open>SERIAL\<close> id, and the statements and chain
  calls issued so far.
\<close>

record world =
  ledger :: "string \<rightharpoonup> PaymentRecord"
  nextId :: nat
  dbLog :: "dbStatement list"
  chainLog :: "chainEvent list"

text \<open>
  The environment: the configuration read by the code, and what the outside does.
  \<open>dbFault n\<close> is \<open>Some m\<close> when the \<open>n\<close>-th statement sent to the database throws
  with message \<open>m\<close> (no connection, timeout, a value a column refuses, ...);
  a statement that throws leaves the table as it was. \<open>rpc n\<close> is the node's answer
  to a \<^verbatim>\<open>getTransaction\<close> issued when \<open>n\<close> chain events have happened.
  \<open>receiverKeyValid\<close> says that \<^verbatim>\<open>new PublicKey(config.solana.receiverAddress)\<close>
  does not throw.
\<close>

record env =
  nodeEnv :: string
  receiverAddress_cfg :: string
  receiverKeyValid :: bool
  dbFault :: "nat \<Rightarrow> string option"
  rpc :: "nat \<Rightarrow> string \<Rightarrow> commitment \<Rightarrow> rpcResult"

definition dbExec :: "env \<Rightarrow> dbStatement \<Rightarrow> world \<Rightarrow> (string + unit) \<times> world" where
  "dbExec e st w =
     (let w' = w\<lparr>dbLog := dbLog w @ [st]\<rparr>
      in case dbFault e (length (dbLog w)) of
           Some m \<Rightarrow> (Inl m, w')
         | None \<Rightarrow> (Inr (), w'))"

definition getTransaction ::
  "env \<Rightarrow> string \<Rightarrow> commitment \<Rightarrow> world \<Rightarrow> (string + txInfo option) \<times> world" where
  "getTransaction e sig c w =
     (let w' = w\<lparr>chainLog := chainLog w @ [GetTransaction sig c]\<rparr>
      in case rpc e (length (chainLog w)) sig c of
           RpcError m \<Rightarrow> (Inl m, w')
         | RpcNull \<Rightarrow> (Inr None, w')
         | RpcTx tx \<Rightarrow> (Inr (Some tx), w'))"

subsection \<open>PaymentTracker: the ledger operations\<close>

text \<open>
  What PostgreSQL says when the \<^verbatim>\<open>UNIQUE\<close> constraint of the column
  \<^verbatim>\<open>signature VARCHAR(88) NOT NULL UNIQUE\<close> refuses a second row.
\<close>

definition duplicateKey :: string where
  \<open>duplicateKey =
     ''duplicate key value violates unique constraint "payment_signatures_signature_key"''\<close>

text \<open>
  The column \<^verbatim>\<open>ip_address INET\<close>: a text that is not an address makes the
  statement throw before any row is touched. Of the syntax of addresses this much
  is modelled: an address is not empty and has no character other than hexadecimal
  digits, \<^verbatim>\<open>.\<close>, \<^verbatim>\<open>:\<close> and \<^verbatim>\<open>/\<close>; so the placeholder \<^verbatim>\<open>unknown\<close> is refused.
  Whatever else the column refuses is left to \<open>dbFault\<close>.
\<close>

definition inetText :: "string \<Rightarrow> bool" where
  "inetText ip = (ip \<noteq> [] \<and> list_all (\<lambda>c. c \<in> set ''0123456789abcdefABCDEF.:/'') ip)"

definition invalidInet :: "string \<Rightarrow> string" where
  \<open>invalidInet ip = ''invalid input syntax for type inet: "'' @ ip @ ''"''\<close>

text \<open>What the column throws for the value bound to it; an absent value is \<^verbatim>\<open>NULL\<close>.\<close>

definition refusedInet :: "string option \<Rightarrow> string option" where
  "refusedInet a =
     (case a of
        None \<Rightarrow> None
      | Some ip \<Rightarrow> if inetText ip then None else Some (invalidInet ip))"

text \<open>\<^verbatim>\<open>getPaymentRecord\<close>: \<^verbatim>\<open>SELECT * FROM payment_signatures WHERE signature = $1\<close>.\<close>

definition getPaymentRecord ::
  "env \<Rightarrow> string \<Rightarrow> world \<Rightarrow> (string + PaymentRecord option) \<times> world" where
  "getPaymentRecord e sig w =
     (case dbExec e (SelectSig sig) w of
        (Inl m, w') \<Rightarrow> (Inl m, w')
      | (Inr _, w') \<Rightarrow> (Inr (ledger w' sig), w'))"

text \<open>
  \<^verbatim>\<open>recordPayment\<close>: \<^verbatim>\<open>INSERT ... RETURNING *\<close>. The \<^verbatim>\<open>UNIQUE\<close> constraint on
  \<^verbatim>\<open>signature\<close> makes the insert of a second row for a signature throw; the value
  of the \<^verbatim>\<open>SERIAL\<close> sequence taken for that row is lost.
\<close>

definition recordPayment ::
  "env \<Rightarrow> PaymentRecord \<Rightarrow> world \<Rightarrow> (string + PaymentRecord) \<times> world" where
  "recordPayment e r w =
     (case dbExec e (InsertSig (signature r)) w of
        (Inl m, w') \<Rightarrow> (Inl m, w')
      | (Inr _, w') \<Rightarrow>
          (case refusedInet (ipAddress r) of
             Some m \<Rightarrow> (Inl m, w')
           | None \<Rightarrow>
               (case ledger w' (signature r) of
                  Some _ \<Rightarrow> (Inl duplicateKey, w'\<lparr>nextId := Suc (nextId w')\<rparr>)
                | None \<Rightarrow>
                    (let row = r\<lparr>id := Some (nextId w')\<rparr>
                     in (Inr row,
                         w'\<lparr>ledger := (ledger w')(signature r \<mapsto> row),
                            nextId := Suc (nextId w')\<rparr>)))))"

text \<open>
  \<^verbatim>\<open>incrementUsageCount\<close>:
  \<^verbatim>\<open>UPDATE payment_signatures SET usage_count = usage_count + 1 WHERE signature = $1\<close>.
  With no such row the statement changes nothing and succeeds.
\<close>

definition bumpUsage :: "string \<Rightarrow> world \<Rightarrow> world" where
  "bumpUsage sig w =
     (case ledger w sig of
        None \<Rightarrow> w
      | Some row \<Rightarrow> w\<lparr>ledger := (ledger w)(sig \<mapsto> row\<lparr>usageCount := usageCount row + 1\<rparr>)\<rparr>)"

definition incrementUsageCount ::
  "env \<Rightarrow> string \<Rightarrow> world \<Rightarrow> (string + unit) \<times> world" where
  "incrementUsageCount e sig w =
     (case dbExec e (UpdateUsage sig) w of
        (Inl m, w') \<Rightarrow> (Inl m, w')
      | (Inr _, w') \<Rightarrow> (Inr (), bumpUsage sig w'))"

subsection \<open>PaymentTracker: reading the chain\<close>

text \<open>
  The object returned by \<^verbatim>\<open>validateOnBlockchain\<close>: \<^verbatim>\<open>isValid\<close>, \<^verbatim>\<open>error\<close>,
  \<^verbatim>\<open>amount\<close>, \<^verbatim>\<open>asset\<close>, \<^verbatim>\<open>senderAddress\<close>, \<^verbatim>\<open>receiverAddress\<close>,
  \<^verbatim>\<open>blockTime\<close>.
\<close>

record transactionInfo =
  tiValid :: bool
  tiError :: "errorMsg option"
  tiAmount :: "int option"
  tiAsset :: "string option"
  tiSender :: "string option"
  tiReceiver :: "string option"
  tiBlockTime :: "int option"

definition invalidTx :: "errorMsg \<Rightarrow> transactionInfo" where
  "invalidTx m =
     \<lparr>tiValid = False, tiError = Some m, tiAmount = None, tiAsset = None,
      tiSender = None, tiReceiver = None, tiBlockTime = None\<rparr>"

text \<open>\<^verbatim>\<open>Array.prototype.indexOf\<close>: the first position, \<open>None\<close> for \<^verbatim>\<open>-1\<close>.\<close>

fun indexOf :: "'a list \<Rightarrow> 'a \<Rightarrow> nat option" where
  "indexOf [] a = None"
| "indexOf (x # xs) a = (if x = a then Some 0 else map_option Suc (indexOf xs a))"

text \<open>
  \<^verbatim>\<open>postBalances[i] - preBalances[i]\<close>. An index past the end of either array reads
  \<^verbatim>\<open>undefined\<close> and the difference is \<^verbatim>\<open>NaN\<close>, here \<open>None\<close>.
\<close>

definition balanceAt :: "int list \<Rightarrow> nat \<Rightarrow> int option" where
  "balanceAt xs i = (if i < length xs then Some (xs ! i) else None)"

definition balanceChangeAt :: "txMeta \<Rightarrow> nat \<Rightarrow> int option" where
  "balanceChangeAt m i =
     (case (balanceAt (postBalances m) i, balanceAt (preBalances m) i) of
        (Some post, Some pre) \<Rightarrow> Some (post - pre)
      | _ \<Rightarrow> None)"

text \<open>
  The loop that looks for the sender: the first account, other than the receiver,
  whose balance went down; the empty string when there is none.
\<close>

function findSender :: "string list \<Rightarrow> txMeta \<Rightarrow> string \<Rightarrow> nat \<Rightarrow> string" where
  "findSender accounts m receiver i =
     (if i < length accounts then
        (if (case balanceChangeAt m i of Some c \<Rightarrow> c < 0 | None \<Rightarrow> False)
             \<and> accounts ! i \<noteq> receiver
         then accounts ! i
         else findSender accounts m receiver (Suc i))
      else [])"
  by pat_completeness auto
termination
  by (relation "measure (\<lambda>(accounts, m, receiver, i). length accounts - i)") auto

declare findSender.simps [simp del]

definition accountKeysUnresolved :: string where
  "accountKeysUnresolved =
     ''Failed to get account keys because address table lookups were not resolved''"

definition bigIntOfNaN :: string where
  "bigIntOfNaN = ''The number NaN cannot be converted to a BigInt because it is not an integer''"

text \<open>
  The expression \<^verbatim>\<open>txInfo.transaction.message.getAccountKeys().keySegments.flat()\<close>.
  \<^verbatim>\<open>getAccountKeys()\<close> throws when the lookup tables of the message are not
  resolved, and gives a \<^verbatim>\<open>MessageAccountKeys\<close> otherwise. In that class of
  \<^verbatim>\<open>@solana/web3.js\<close>, \<^verbatim>\<open>keySegments\<close> is a method: the property read gives a
  function, a function has no \<^verbatim>\<open>flat\<close>, and the call throws a \<^verbatim>\<open>TypeError\<close>.
  (\<^verbatim>\<open>validateSOLPayment\<close> reads \<^verbatim>\<open>staticAccountKeys\<close>, a field.) So the expression
  never has a value, \<open>Inr\<close>; it always throws, \<open>Inl\<close>.
\<close>

definition flatNotAFunction :: string where
  "flatNotAFunction =
     ''txInfo.transaction.message.getAccountKeys(...).keySegments.flat is not a function''"

definition keySegmentsFlat :: "txInfo \<Rightarrow> string + string list" where
  "keySegmentsFlat tx =
     (case accountKeys tx of
        None \<Rightarrow> Inl accountKeysUnresolved
      | Some (static, loaded) \<Rightarrow> Inl flatNotAFunction)"

text \<open>
  The part of \<^verbatim>\<open>validateOnBlockchain\<close> after the record has been fetched. Every
  exception is caught by the function's own \<^verbatim>\<open>catch\<close> and becomes
  \<^verbatim>\<open>Blockchain validation failed\<close>: that of the account keys, and, in the lines
  after it, that of \<^verbatim>\<open>BigInt(balanceChange)\<close> for a \<^verbatim>\<open>NaN\<close> balance change (for
  which the test \<^verbatim>\<open>balanceChange <= 0\<close> is false).
\<close>

definition extractTransfer :: "env \<Rightarrow> txInfo \<Rightarrow> transactionInfo" where
  "extractTransfer e tx =
     (case meta tx of
        None \<Rightarrow> invalidTx TxFailed
      | Some m \<Rightarrow>
          if err m \<noteq> None then invalidTx TxFailed
          else
            (case keySegmentsFlat tx of
               Inl m \<Rightarrow> invalidTx (BlockchainValidationFailed m)
             | Inr accounts \<Rightarrow>
                 (case indexOf accounts (receiverAddress_cfg e) of
                       None \<Rightarrow> invalidTx WrongReceiver
                     | Some receiverIndex \<Rightarrow>
                         (case balanceChangeAt m receiverIndex of
                            None \<Rightarrow> invalidTx (BlockchainValidationFailed bigIntOfNaN)
                          | Some balanceChange \<Rightarrow>
                              if balanceChange \<le> 0 then invalidTx NoPositiveChange
                              else
                                \<lparr>tiValid = True, tiError = None,
                                 tiAmount = Some balanceChange,
                                 tiAsset = Some ''native'',
                                 tiSender =
                                   Some (findSender accounts m (receiverAddress_cfg e) 0),
                                 tiReceiver = Some (receiverAddress_cfg e),
                                 tiBlockTime =
                                   (case txBlockTime tx of
                                      None \<Rightarrow> None
                                    | Some t \<Rightarrow> if t = 0 then None else Some (t * 1000))\<rparr>))))"

text \<open>
  \<^verbatim>\<open>validateOnBlockchain\<close>: one \<^verbatim>\<open>getTransaction\<close> at \<^verbatim>\<open>confirmed\<close>; every
  exception inside is caught here and becomes an invalid result.
\<close>

definition validateOnBlockchain :: "env \<Rightarrow> string \<Rightarrow> world \<Rightarrow> transactionInfo \<times> world" where
  "validateOnBlockchain e sig w =
     (case getTransaction e sig Confirmed w of
        (Inl m, w') \<Rightarrow> (invalidTx (BlockchainValidationFailed m), w')
      | (Inr None, w') \<Rightarrow> (invalidTx TxNotFound, w')
      | (Inr (Some tx), w') \<Rightarrow> (extractTransfer e tx, w'))"

text \<open>
  \<^verbatim>\<open>verifyPaymentDetails\<close>: \<open>None\<close> stands for \<^verbatim>\<open>{ isValid: true }\<close>, \<open>Some m\<close> for
  \<^verbatim>\<open>{ isValid: false, error: m }\<close>. An absent amount compares as \<^verbatim>\<open>undefined\<close>, never
  smaller.
\<close>

definition verifyPaymentDetails :: "transactionInfo \<Rightarrow> int \<Rightarrow> string \<Rightarrow> errorMsg option" where
  "verifyPaymentDetails ti expectedAmount expectedAsset =
     (if tiAsset ti \<noteq> Some expectedAsset then
        Some (WrongAsset expectedAsset
                (case tiAsset ti of Some a \<Rightarrow> a | None \<Rightarrow> ''undefined''))
      else
        (case tiAmount ti of
           Some a \<Rightarrow>
             if a < expectedAmount then Some (InsufficientAmount expectedAmount a)
             else None
         | None \<Rightarrow> None))"

subsection \<open>PaymentTracker.validatePayment\<close>

text \<open>The arguments of \<^verbatim>\<open>validatePayment\<close>, and the time \<^verbatim>\<open>new Date()\<close> reads.\<close>

record verifyArgs =
  vSignature :: string
  expectedAmount :: int
  expectedAsset :: string
  vEndpoint :: string
  vClientIP :: "string option"
  vUserAgent :: "string option"
  vNow :: nat

text \<open>
  The body of the \<^verbatim>\<open>try\<close> up to step 3: either the result is decided, or a record
  is ready to be written. \<open>Inl\<close> is an exception on its way to the \<^verbatim>\<open>catch\<close>.
\<close>

datatype checked = Decided PaymentValidationResult | ToCommit PaymentRecord

definition replayResult :: "PaymentRecord \<Rightarrow> PaymentValidationResult" where
  "replayResult existing =
     \<lparr>isValid = False, isFirstUse = False, error = Some AlreadyUsed,
      paymentRecord = Some existing\<rparr>"

definition rejectFirstUse :: "errorMsg option \<Rightarrow> PaymentValidationResult" where
  "rejectFirstUse m =
     \<lparr>isValid = False, isFirstUse = True, error = m, paymentRecord = None\<rparr>"

definition newRecord :: "verifyArgs \<Rightarrow> transactionInfo \<Rightarrow> PaymentRecord" where
  "newRecord a ti =
     \<lparr>id = None,
      signature = vSignature a,
      network = ''solana'',
      amount = (case tiAmount ti of Some x \<Rightarrow> x | None \<Rightarrow> 0),
      asset = (case tiAsset ti of Some x \<Rightarrow> (if x = [] then ''SOL'' else x) | None \<Rightarrow> ''SOL''),
      senderAddress = (case tiSender ti of Some x \<Rightarrow> x | None \<Rightarrow> []),
      receiverAddress = (case tiReceiver ti of Some x \<Rightarrow> x | None \<Rightarrow> []),
      apiEndpoint = vEndpoint a,
      blockTime = tiBlockTime ti,
      firstUsedAt = vNow a,
      usageCount = 1,
      ipAddress = vClientIP a,
      userAgent = vUserAgent a\<rparr>"

definition checkPayment :: "env \<Rightarrow> verifyArgs \<Rightarrow> world \<Rightarrow> (string + checked) \<times> world" where
  "checkPayment e a w =
     (case getPaymentRecord e (vSignature a) w of
        (Inl m, w1) \<Rightarrow> (Inl m, w1)
      | (Inr (Some existing), w1) \<Rightarrow>
          (case incrementUsageCount e (vSignature a) w1 of
             (Inl m, w2) \<Rightarrow> (Inl m, w2)
           | (Inr _, w2) \<Rightarrow> (Inr (Decided (replayResult existing)), w2))
      | (Inr None, w1) \<Rightarrow>
          (case validateOnBlockchain e (vSignature a) w1 of
             (ti, w2) \<Rightarrow>
               if \<not> tiValid ti then (Inr (Decided (rejectFirstUse (tiError ti))), w2)
               else
                 (case verifyPaymentDetails ti (expectedAmount a) (expectedAsset a) of
                    Some m \<Rightarrow> (Inr (Decided (rejectFirstUse (Some m))), w2)
                  | None \<Rightarrow> (Inr (ToCommit (newRecord a ti)), w2))))"

text \<open>Step 4: the insert, and the accepting result.\<close>

definition commitPayment ::
  "env \<Rightarrow> PaymentRecord \<Rightarrow> world \<Rightarrow> (string + PaymentValidationResult) \<times> world" where
  "commitPayment e r w =
     (case recordPayment e r w of
        (Inl m, w') \<Rightarrow> (Inl m, w')
      | (Inr row, w') \<Rightarrow>
          (Inr \<lparr>isValid = True, isFirstUse = True, error = None,
                paymentRecord = Some row\<rparr>, w'))"

text \<open>The \<^verbatim>\<open>catch\<close> of \<^verbatim>\<open>validatePayment\<close>.\<close>

definition caught :: "string \<Rightarrow> PaymentValidationResult" where
  "caught m =
     \<lparr>isValid = False, isFirstUse = False,
      error = Some (PaymentValidationFailed m), paymentRecord = None\<rparr>"

definition finishPayment ::
  "env \<Rightarrow> (string + checked) \<times> world \<Rightarrow> PaymentValidationResult \<times> world" where
  "finishPayment e cw =
     (case cw of
        (Inl m, w') \<Rightarrow> (caught m, w')
      | (Inr (Decided r), w') \<Rightarrow> (r, w')
      | (Inr (ToCommit r), w') \<Rightarrow>
          (case commitPayment e r w' of
             (Inl m, w'') \<Rightarrow> (caught m, w'')
           | (Inr res, w'') \<Rightarrow> (res, w'')))"

definition validatePayment ::
  "env \<Rightarrow> verifyArgs \<Rightarrow> world \<Rightarrow> PaymentValidationResult \<times> world" where
  "validatePayment e a w = finishPayment e (checkPayment e a w)"

subsection \<open>validatePaymentMiddleware\<close>

text \<open>
  The request: the headers \<^verbatim>\<open>x-payment-signature\<close>, \<^verbatim>\<open>x-payment-network\<close>,
  \<^verbatim>\<open>x-payment-amount\<close> and \<^verbatim>\<open>user-agent\<close>, the client address
  (\<^verbatim>\<open>req.ip || req.connection.remoteAddress\<close>) and the time of arrival.
\<close>

record paymentRequest =
  hSignature :: "string option"
  hNetwork :: "string option"
  hAmount :: "string option"
  clientAddr :: "string option"
  hUserAgent :: "string option"
  arrival :: nat

record reqPayment =
  pSignature :: string
  pNetwork :: string
  pAmount :: string
  isVerified :: bool

record paymentDetails =
  first_used_at :: nat
  usage_count :: nat
  original_endpoint :: string

record rejectionBody =
  rError :: "errorMsg option"
  rCode :: nat
  is_replay_attack :: bool
  payment_details :: "paymentDetails option"

datatype gateResponse =
    GateNext reqPayment
  | PaymentRequired
  | Rejected nat rejectionBody
  | ServerError

text \<open>The response to a result with \<^verbatim>\<open>isValid\<close> false.\<close>

definition rejection :: "PaymentValidationResult \<Rightarrow> gateResponse" where
  "rejection r =
     (let statusCode = (if isFirstUse r then 400 else 409)
      in Rejected statusCode
           \<lparr>rError = error r, rCode = statusCode,
            is_replay_attack = (\<not> isFirstUse r),
            payment_details =
              (case paymentRecord r of
                 None \<Rightarrow> None
               | Some p \<Rightarrow>
                   Some \<lparr>first_used_at = firstUsedAt p, usage_count = usageCount p,
                         original_endpoint = apiEndpoint p\<rparr>)\<rparr>)"

text \<open>
  \<^verbatim>\<open>BigInt(Math.floor(requiredAmountSOL * 1e9))\<close>, computed in doubles from the
  price; \<open>None\<close> when the expression throws (the price is not a finite number).
\<close>

definition expectedLamports :: "number \<Rightarrow> int option" where
  "expectedLamports requiredAmountSOL = bigIntOf (mathFloor (times1e9 requiredAmountSOL))"

text \<open>
  The middleware. A header that is absent or empty is falsy. An exception of the
  conversion above goes to the outer \<^verbatim>\<open>catch\<close>, which answers 500
  (\<open>ServerError\<close>).
\<close>

definition validatePaymentMiddleware ::
  "env \<Rightarrow> number \<Rightarrow> string \<Rightarrow> paymentRequest \<Rightarrow> world \<Rightarrow> gateResponse \<times> world" where
  "validatePaymentMiddleware e requiredAmountSOL endpoint req w =
     (if nodeEnv e = ''development'' then
        (GateNext \<lparr>pSignature = ''dev-mode'', pNetwork = ''solana'', pAmount = ''0'',
                   isVerified = True\<rparr>, w)
      else
        (case (hSignature req, hNetwork req, hAmount req) of
           (Some sig, Some net, Some amt) \<Rightarrow>
             if sig = [] \<or> net = [] \<or> amt = [] then (PaymentRequired, w)
             else
               (case expectedLamports requiredAmountSOL of
                  None \<Rightarrow> (ServerError, w)
                | Some expected \<Rightarrow>
                    (case validatePayment e
                            \<lparr>vSignature = sig, expectedAmount = expected,
                             expectedAsset = ''native'', vEndpoint = endpoint,
                             vClientIP = clientAddr req, vUserAgent = hUserAgent req,
                             vNow = arrival req\<rparr> w of
                       (r, w') \<Rightarrow>
                         if \<not> isValid r then (rejection r, w')
                         else
                           (GateNext \<lparr>pSignature = sig, pNetwork = net, pAmount = amt,
                                      isVerified = True\<rparr>, w')))
         | _ \<Rightarrow> (PaymentRequired, w)))"

subsection \<open>SimplePaymentTracker\<close>

text \<open>
  \<^verbatim>\<open>isSignatureUsed\<close>: a query that throws is answered \<^verbatim>\<open>false\<close>
  (\<^verbatim>\<open>// Allow in case of DB issues\<close>).
\<close>

definition isSignatureUsed :: "env \<Rightarrow> string \<Rightarrow> world \<Rightarrow> bool \<times> world" where
  "isSignatureUsed e sig w =
     (case dbExec e (SelectSig sig) w of
        (Inl m, w') \<Rightarrow> (False, w')
      | (Inr _, w') \<Rightarrow> (ledger w' sig \<noteq> None, w'))"

definition simpleSender :: string where
  "simpleSender = ''HKc1p8QY1XquJXEkQ5Qep9CqU3nnpTa7A9YA32jTfWA5''"

definition simpleReceiver :: string where
  "simpleReceiver = ''FwJ3yH7AxZjxveFmbK74ZdLp6EaaLLoRffhiKVP3VX98''"

text \<open>
  \<^verbatim>\<open>SimplePaymentTracker.recordPayment\<close>: the insert names no \<^verbatim>\<open>usage_count\<close> and
  no \<^verbatim>\<open>first_used_at\<close>, so the row gets the defaults of the schema, \<^verbatim>\<open>1\<close> and
  \<^verbatim>\<open>NOW()\<close>. Every exception, that of the \<^verbatim>\<open>UNIQUE\<close> constraint included, is
  logged and dropped (\<^verbatim>\<open>// Don't throw - let the request proceed even if DB recording fails\<close>).
  \<open>simpleInsert\<close> is the \<^verbatim>\<open>await pool.query(...)\<close> inside the \<^verbatim>\<open>try\<close>, \<open>Inl\<close> what
  it throws; \<open>sol\<close> is the argument \<^verbatim>\<open>amount\<close>, \<open>now\<close> the time \<^verbatim>\<open>NOW()\<close> reads.
\<close>

definition simpleInsert ::
  "env \<Rightarrow> string \<Rightarrow> rat \<Rightarrow> string \<Rightarrow> string \<Rightarrow> string \<Rightarrow> string \<Rightarrow> nat \<Rightarrow> world
     \<Rightarrow> (string + unit) \<times> world" where
  "simpleInsert e sig sol currency ip ua endpointPath now w =
     (case dbExec e (InsertSig sig) w of
        (Inl m, w') \<Rightarrow> (Inl m, w')
      | (Inr _, w') \<Rightarrow>
          (case refusedInet (Some ip) of
             Some m \<Rightarrow> (Inl m, w')
           | None \<Rightarrow>
               (case ledger w' sig of
                  Some _ \<Rightarrow> (Inl duplicateKey, w'\<lparr>nextId := Suc (nextId w')\<rparr>)
                | None \<Rightarrow>
                    (Inr (),
                     w'\<lparr>ledger := (ledger w')(sig \<mapsto>
                          \<lparr>id = Some (nextId w'), signature = sig, network = ''solana'',
                           amount = solToLamports sol, asset = currency,
                           senderAddress = simpleSender, receiverAddress = simpleReceiver,
                           apiEndpoint = endpointPath, blockTime = None,
                           firstUsedAt = now, usageCount = 1,
                           ipAddress = Some ip, userAgent = Some ua\<rparr>),
                        nextId := Suc (nextId w')\<rparr>))))"

definition simpleRecordPayment ::
  "env \<Rightarrow> string \<Rightarrow> rat \<Rightarrow> string \<Rightarrow> string \<Rightarrow> string \<Rightarrow> string \<Rightarrow> nat \<Rightarrow> world \<Rightarrow> world" where
  "simpleRecordPayment e sig sol currency ip ua endpointPath now w =
     snd (simpleInsert e sig sol currency ip ua endpointPath now w)"

text \<open>\<^verbatim>\<open>recordReplayAttempt\<close>: the same update as \<^verbatim>\<open>incrementUsageCount\<close>, exceptions dropped.\<close>

definition recordReplayAttempt :: "env \<Rightarrow> string \<Rightarrow> string \<Rightarrow> string \<Rightarrow> world \<Rightarrow> world" where
  "recordReplayAttempt e sig ip ua w =
     (case dbExec e (UpdateUsage sig) w of
        (Inl m, w') \<Rightarrow> w'
      | (Inr _, w') \<Rightarrow> bumpUsage sig w')"

subsection \<open>validateSOLPayment\<close>

text \<open>
  The responses: the status and the \<^verbatim>\<open>error\<close> text of the body (for
  \<open>SolInsufficient\<close> with the amount received, in SOL), or \<^verbatim>\<open>next()\<close> with the
  values left in \<^verbatim>\<open>res.locals\<close>.
\<close>

datatype solError =
    SolPaymentRequired
  | SolAlreadyUsed
  | SolNotFound
  | SolTxFailed
  | SolWrongAddress
  | SolInsufficient rat
  | SolVerificationFailed

record solLocals =
  paymentVerified :: bool
  paymentType :: string
  paymentAmount :: rat
  paymentSignature :: string

datatype solResponse = SolNext "solLocals option" | SolJson nat solError

definition maxAttempts :: nat where
  "maxAttempts = 2"

definition sleep :: "nat \<Rightarrow> world \<Rightarrow> world" where
  "sleep ms w = w\<lparr>chainLog := chainLog w @ [Sleep ms]\<rparr>"

text \<open>
  The loop \<^verbatim>\<open>while (!transaction && attempts < maxAttempts)\<close>. \<open>Inl\<close> is an exception
  of \<^verbatim>\<open>getTransaction\<close>, which leaves the loop.
\<close>

function lookupLoop ::
  "env \<Rightarrow> string \<Rightarrow> txInfo option \<Rightarrow> nat \<Rightarrow> world \<Rightarrow> (string + txInfo option) \<times> world" where
  "lookupLoop e sig transaction attempts w =
     (if transaction = None \<and> attempts < maxAttempts then
        (case getTransaction e sig Confirmed w of
           (Inl m, w1) \<Rightarrow> (Inl m, w1)
         | (Inr t1, w1) \<Rightarrow>
             (case (if t1 = None then getTransaction e sig Finalized w1 else (Inr t1, w1)) of
                (Inl m, w2) \<Rightarrow> (Inl m, w2)
              | (Inr t2, w2) \<Rightarrow>
                  lookupLoop e sig t2 (attempts + 1)
                    (if t2 = None \<and> attempts + 1 < maxAttempts then sleep 1000 w2 else w2)))
      else (Inr transaction, w))"
  by pat_completeness auto
termination
  by (relation "measure (\<lambda>(e, sig, transaction, attempts, w). maxAttempts - attempts)") auto

declare lookupLoop.simps [simp del]

text \<open>\<^verbatim>\<open>h || 'unknown'\<close>.\<close>

definition orUnknown :: "string option \<Rightarrow> string" where
  "orUnknown h = (case h of None \<Rightarrow> ''unknown'' | Some s \<Rightarrow> if s = [] then ''unknown'' else s)"

text \<open>\<^verbatim>\<open>balances[i] || 0\<close>.\<close>

definition balanceOrZero :: "int list \<Rightarrow> nat \<Rightarrow> int" where
  "balanceOrZero xs i = (case balanceAt xs i of None \<Rightarrow> 0 | Some b \<Rightarrow> b)"

text \<open>
  The handler up to the call of \<^verbatim>\<open>recordPayment\<close>: either a response is sent, or the
  payment (signature and amount received, in SOL) is ready to be recorded.
\<close>

datatype solChecked = SolDecided solResponse | SolToRecord string rat

definition solInspect :: "env \<Rightarrow> number \<Rightarrow> string \<Rightarrow> txInfo \<Rightarrow> solChecked" where
  "solInspect e expectedAmountSol sig tx =
     (case meta tx of
        None \<Rightarrow> SolDecided (SolJson 400 SolTxFailed)
      | Some m \<Rightarrow>
          if err m \<noteq> None then SolDecided (SolJson 400 SolTxFailed)
          else if \<not> receiverKeyValid e then SolDecided (SolJson 500 SolVerificationFailed)
          else
            (case accountKeys tx of
               None \<Rightarrow> SolDecided (SolJson 500 SolVerificationFailed)
             | Some (static, loaded) \<Rightarrow>
                 (case indexOf static (receiverAddress_cfg e) of
                    None \<Rightarrow> SolDecided (SolJson 400 SolWrongAddress)
                  | Some receiverIndex \<Rightarrow>
                      (let preBalance = balanceOrZero (preBalances m) receiverIndex;
                           postBalance = balanceOrZero (postBalances m) receiverIndex;
                           solReceived = lamportsToSol (postBalance - preBalance)
                       in if numberLess solReceived expectedAmountSol then
                            SolDecided (SolJson 400 (SolInsufficient solReceived))
                          else SolToRecord sig solReceived))))"

definition solCheck ::
  "env \<Rightarrow> number \<Rightarrow> paymentRequest \<Rightarrow> world \<Rightarrow> solChecked \<times> world" where
  "solCheck e expectedAmountSol req w =
     (if nodeEnv e = ''development'' then (SolDecided (SolNext None), w)
      else
        (case hSignature req of
           None \<Rightarrow> (SolDecided (SolJson 402 SolPaymentRequired), w)
         | Some sig \<Rightarrow>
             if sig = [] then (SolDecided (SolJson 402 SolPaymentRequired), w)
             else
               (case isSignatureUsed e sig w of
                  (isUsed, w1) \<Rightarrow>
                    if isUsed then
                      (SolDecided (SolJson 409 SolAlreadyUsed),
                       recordReplayAttempt e sig (orUnknown (clientAddr req))
                         (orUnknown (hUserAgent req)) w1)
                    else
                      (case lookupLoop e sig None 0 w1 of
                         (Inl m, w2) \<Rightarrow> (SolDecided (SolJson 500 SolVerificationFailed), w2)
                       | (Inr None, w2) \<Rightarrow> (SolDecided (SolJson 400 SolNotFound), w2)
                       | (Inr (Some tx), w2) \<Rightarrow> (solInspect e expectedAmountSol sig tx, w2)))))"

text \<open>The rest of the handler: \<^verbatim>\<open>recordPayment\<close>, the locals and \<^verbatim>\<open>next()\<close>.\<close>

definition solRecord ::
  "env \<Rightarrow> string \<Rightarrow> paymentRequest \<Rightarrow> string \<Rightarrow> rat \<Rightarrow> world \<Rightarrow> solResponse \<times> world" where
  "solRecord e endpointPath req sig solReceived w =
     (SolNext (Some \<lparr>paymentVerified = True, paymentType = ''SOL'',
                      paymentAmount = solReceived, paymentSignature = sig\<rparr>),
      simpleRecordPayment e sig solReceived ''SOL'' (orUnknown (clientAddr req))
        (orUnknown (hUserAgent req)) endpointPath (arrival req) w)"

definition solFinish ::
  "env \<Rightarrow> string \<Rightarrow> paymentRequest \<Rightarrow> solChecked \<times> world \<Rightarrow> solResponse \<times> world" where
  "solFinish e endpointPath req cw =
     (case cw of
        (SolDecided r, w') \<Rightarrow> (r, w')
      | (SolToRecord sig solReceived, w') \<Rightarrow> solRecord e endpointPath req sig solReceived w')"

definition validateSOLPayment ::
  "env \<Rightarrow> number \<Rightarrow> string \<Rightarrow> paymentRequest \<Rightarrow> world \<Rightarrow> solResponse \<times> world" where
  "validateSOLPayment e expectedAmountSol endpointPath req w =
     solFinish e endpointPath req (solCheck e expectedAmountSol req w)"

subsection \<open>Requests in sequence and in a race\<close>



text \<open>
  Node runs one handler at a time and switches between handlers at an \<^verbatim>\<open>await\<close>.
  In the schedule below two requests are both taken up to the \<^verbatim>\<open>await\<close> of the
  insert before either insert runs: the first request's lookup and chain read, the
  second's, then the first insert, then the second.
\<close>

definition raceValidatePayment ::
  "env \<Rightarrow> verifyArgs \<Rightarrow> verifyArgs \<Rightarrow> world
     \<Rightarrow> PaymentValidationResult \<times> PaymentValidationResult \<times> world" where
  "raceValidatePayment e a1 a2 w =
     (case checkPayment e a1 w of
        (c1, w1) \<Rightarrow>
          (case checkPayment e a2 w1 of
             (c2, w2) \<Rightarrow>
               (case finishPayment e (c1, w2) of
                  (r1, w3) \<Rightarrow>
                    (case finishPayment e (c2, w3) of
                       (r2, w4) \<Rightarrow> (r1, r2, w4)))))"

definition raceValidateSOLPayment ::
  "env \<Rightarrow> number \<Rightarrow> string \<Rightarrow> paymentRequest \<Rightarrow> paymentRequest \<Rightarrow> world
     \<Rightarrow> solResponse \<times> solResponse \<times> world" where
  "raceValidateSOLPayment e price ep req1 req2 w =
     (case solCheck e price req1 w of
        (c1, w1) \<Rightarrow>
          (case solCheck e price req2 w1 of
             (c2, w2) \<Rightarrow>
               (case solFinish e ep req1 (c1, w2) of
                  (r1, w3) \<Rightarrow>
                    (case solFinish e ep req2 (c2, w3) of
                       (r2, w4) \<Rightarrow> (r1, r2, w4)))))"

subsection \<open>Notions used in the statements\<close>

text \<open>The value \<^verbatim>\<open>getTransaction\<close> gives, or throws, for an answer of the node.\<close>

definition rpcValue :: "rpcResult \<Rightarrow> string + txInfo option" where
  "rpcValue r = (case r of RpcError m \<Rightarrow> Inl m | RpcNull \<Rightarrow> Inr None | RpcTx tx \<Rightarrow> Inr (Some tx))"

text \<open>
  The price of \<open>L\<close> lamports as the configuration gives it to the handlers: the
  number that \<^verbatim>\<open>parseFloat\<close> reads from the decimal text of \<open>L / 10\<^sup>9\<close> SOL, the
  double nearest to that value.
\<close>

definition priceOf :: "int \<Rightarrow> number" where
  "priceOf L = Finite (fl (of_int L / 1000000000))"


text \<open>
  A statement sent to the database between the worlds \<open>w\<close> and \<open>w'\<close> met a fault
  of the database and threw; a \<^verbatim>\<open>getTransaction\<close> issued between them threw (the
  events added to the chain log, each with the node's answer at its position).
\<close>

definition dbThrew :: "env \<Rightarrow> world \<Rightarrow> world \<Rightarrow> bool" where
  "dbThrew e w w' =
     (\<exists>n \<in> {length (dbLog w) ..< length (dbLog w')}. dbFault e n \<noteq> None)"

fun threwFrom :: "env \<Rightarrow> nat \<Rightarrow> chainEvent list \<Rightarrow> bool" where
  "threwFrom e n [] = False"
| "threwFrom e n (GetTransaction sig c # evs) =
     ((case rpc e n sig c of RpcError m \<Rightarrow> True | _ \<Rightarrow> False) \<or> threwFrom e (Suc n) evs)"
| "threwFrom e n (Sleep ms # evs) = threwFrom e (Suc n) evs"

definition chainThrew :: "env \<Rightarrow> world \<Rightarrow> world \<Rightarrow> bool" where
  "chainThrew e w w' =
     threwFrom e (length (chainLog w)) (drop (length (chainLog w)) (chainLog w'))"

subsection \<open>A concrete scenario\<close>

text \<open>
  The signature \<open>SIG_A\<close> pays 150000 lamports from \<open>P\<close> to the receiver \<open>R\<close>; the
  price is 0.0001 SOL, the default of the configuration, 100000 lamports.
\<close>

definition priceA :: number where
  "priceA = priceOf 100000"

definition txA :: txInfo where
  "txA =
     \<lparr>meta = Some \<lparr>err = None, preBalances = [1000000, 0],
                    postBalances = [845000, 150000]\<rparr>,
      accountKeys = Some ([''P'', ''R''], []),
      txBlockTime = Some 1700000000\<rparr>"

definition nodeA :: "nat \<Rightarrow> string \<Rightarrow> commitment \<Rightarrow> rpcResult" where
  "nodeA n sig c = (if sig = ''SIG_A'' then RpcTx txA else RpcNull)"

definition envA :: env where
  "envA =
     \<lparr>nodeEnv = ''production'', receiverAddress_cfg = ''R'', receiverKeyValid = True,
      dbFault = (\<lambda>n. None), rpc = nodeA\<rparr>"

definition emptyWorld :: world where
  "emptyWorld = \<lparr>ledger = Map.empty, nextId = 1, dbLog = [], chainLog = []\<rparr>"

definition argsA :: verifyArgs where
  "argsA =
     \<lparr>vSignature = ''SIG_A'', expectedAmount = 100000, expectedAsset = ''native'',
      vEndpoint = ''POST /api/query'', vClientIP = Some ''10.0.0.1'',
      vUserAgent = Some ''curl'', vNow = 1000\<rparr>"

definition requestA :: paymentRequest where
  "requestA =
     \<lparr>hSignature = Some ''SIG_A'', hNetwork = Some ''solana'', hAmount = Some ''100000'',
      clientAddr = Some ''10.0.0.1'', hUserAgent = Some ''curl'', arrival = 1000\<rparr>"

text \<open>The row that \<^verbatim>\<open>validateSOLPayment\<close> writes for \<open>SIG_A\<close>.\<close>

definition rowA :: PaymentRecord where
  "rowA =
     \<lparr>id = Some 1, signature = ''SIG_A'', network = ''solana'', amount = 150000,
      asset = ''SOL'', senderAddress = simpleSender, receiverAddress = simpleReceiver,
      apiEndpoint = ''POST /api/query'', blockTime = None,
      firstUsedAt = 1000, usageCount = 1, ipAddress = Some ''10.0.0.1'',
      userAgent = Some ''curl''\<rparr>"

definition envDev :: env where
  "envDev = envA\<lparr>nodeEnv := ''development''\<rparr>"

text \<open>The world after \<open>SIG_A\<close> has been accepted once by \<^verbatim>\<open>validateSOLPayment\<close>.\<close>

definition usedWorld :: world where
  "usedWorld =
     \<lparr>ledger = [''SIG_A'' \<mapsto> rowA], nextId = 2,
      dbLog = [SelectSig ''SIG_A'', InsertSig ''SIG_A''],
      chainLog = [GetTransaction ''SIG_A'' Confirmed]\<rparr>"

text \<open>
  A node that answers every lookup with a transaction in which \<open>R\<close> receives \<open>x\<close>
  lamports from \<open>P\<close>.
\<close>

definition txOf :: "int \<Rightarrow> txInfo" where
  "txOf x =
     \<lparr>meta = Some \<lparr>err = None, preBalances = [x + 1000000, 0],
                    postBalances = [995000, x]\<rparr>,
      accountKeys = Some ([''P'', ''R''], []),
      txBlockTime = Some 1700000000\<rparr>"

definition envOf :: "int \<Rightarrow> env" where
  "envOf x = envA\<lparr>rpc := (\<lambda>n sig c. RpcTx (txOf x))\<rparr>"

text \<open>A node on which \<open>SIG_A\<close> becomes visible only at the fourth chain event.\<close>

definition envSlow :: env where
  "envSlow = envA\<lparr>rpc := (\<lambda>n sig c. if n < 3 then RpcNull else RpcTx txA)\<rparr>"

text \<open>A node whose every lookup throws, and a database whose every statement throws.\<close>

definition envChainDown :: env where
  "envChainDown = envA\<lparr>rpc := (\<lambda>n sig c. RpcError ''timeout'')\<rparr>"

definition envDbDown :: env where
  "envDbDown = envA\<lparr>dbFault := (\<lambda>n. Some ''connection refused'')\<rparr>"

text \<open>A database that loses its connection at the fourth statement only.\<close>

definition envUpdateDown :: env where
  "envUpdateDown =
     envA\<lparr>dbFault := (\<lambda>n. if n = 3 then Some ''Connection terminated unexpectedly'' else None)\<rparr>"


definition envBig :: env where
  "envBig = envA\<lparr>rpc := (\<lambda>n sig c. RpcTx (txOf 8388608000000001))\<rparr>"

text \<open>A request that carries no client address: \<^verbatim>\<open>req.ip\<close> is undefined.\<close>

definition requestNoIp :: paymentRequest where
  "requestNoIp = requestA\<lparr>clientAddr := None\<rparr>"

section \<open>Properties\<close>

subsection \<open>Rounding to a double\<close>

lemma bitlen_pos: "0 < n \<Longrightarrow> 1 \<le> bitlen n"
  using bitlen_eq_zero_iff [of n] bitlen_nonneg [of n] by linarith


lemma floorLog2_less:
  assumes "0 < x"
  shows "x < 2 powi (floorLog2 x + 1)"
proof (cases "1 \<le> x")
  case True
  then have pos: "0 < \<lfloor>x\<rfloor>" by linarith
  have "\<lfloor>x\<rfloor> < 2 ^ nat (bitlen \<lfloor>x\<rfloor>)"
    using bitlen_bounds [OF pos] by simp
  then have "\<lfloor>x\<rfloor> + 1 \<le> 2 ^ nat (bitlen \<lfloor>x\<rfloor>)" by simp
  then have "(of_int (\<lfloor>x\<rfloor> + 1) :: rat) \<le> of_int (2 ^ nat (bitlen \<lfloor>x\<rfloor>))"
    by (simp only: of_int_le_iff)
  then have "x < 2 ^ nat (bitlen \<lfloor>x\<rfloor>)"
    using floor_correct [of x] by simp
  then show ?thesis
    using True bitlen_pos [OF pos] by (simp add: floorLog2_def power_int_def)
next
  case False
  let ?c = "\<lceil>1 / x\<rceil>"
  let ?n = "bitlen (?c - 1)"
  have y: "1 < 1 / x" using False assms by simp
  then have pos: "0 < ?c - 1" by linarith
  have n: "1 \<le> ?n" by (rule bitlen_pos [OF pos])
  have "2 ^ nat (?n - 1) \<le> ?c - 1"
    using bitlen_bounds [OF pos] by simp
  then have "(of_int (2 ^ nat (?n - 1)) :: rat) \<le> of_int (?c - 1)"
    by (simp only: of_int_le_iff)
  then have "2 ^ nat (?n - 1) < 1 / x"
    using ceiling_correct [of "1 / x"] by simp
  then have "x < 1 / 2 ^ nat (?n - 1)"
    using assms by (simp add: field_simps)
  moreover have "(2::rat) powi (- ?n + 1) = 1 / 2 ^ nat (?n - 1)"
    using n by (simp add: power_int_def field_simps nat_diff_distrib)
  ultimately show ?thesis
    using False by (simp add: floorLog2_def)
qed





lemma fl_zero [simp]: "fl 0 = 0"
  by (simp add: fl_def)

















lemma priceA_threshold: "expectedLamports priceA = Some 100000"
  by code_simp

lemma received_A:
  "numberLess (lamportsToSol 150000) priceA = False"
  "solToLamports (lamportsToSol 150000) = 150000"
  by code_simp+

subsection \<open>The operations, one equation each\<close>

lemma getPaymentRecord_eq:
  "getPaymentRecord e s w =
     (case dbFault e (length (dbLog w)) of Some m \<Rightarrow> Inl m | None \<Rightarrow> Inr (ledger w s),
      w\<lparr>dbLog := dbLog w @ [SelectSig s]\<rparr>)"
  by (simp add: getPaymentRecord_def dbExec_def Let_def split: option.splits)

lemma incrementUsageCount_eq:
  "incrementUsageCount e s w =
     (case dbFault e (length (dbLog w)) of
        Some m \<Rightarrow> (Inl m, w\<lparr>dbLog := dbLog w @ [UpdateUsage s]\<rparr>)
      | None \<Rightarrow> (Inr (), bumpUsage s (w\<lparr>dbLog := dbLog w @ [UpdateUsage s]\<rparr>)))"
  by (simp add: incrementUsageCount_def dbExec_def Let_def split: option.splits)

lemma validateOnBlockchain_eq:
  "validateOnBlockchain e s w =
     (case rpc e (length (chainLog w)) s Confirmed of
        RpcError m \<Rightarrow> invalidTx (BlockchainValidationFailed m)
      | RpcNull \<Rightarrow> invalidTx TxNotFound
      | RpcTx tx \<Rightarrow> extractTransfer e tx,
      w\<lparr>chainLog := chainLog w @ [GetTransaction s Confirmed]\<rparr>)"
  by (simp add: validateOnBlockchain_def getTransaction_def Let_def split: rpcResult.splits)

lemma bumpUsage_dbLog [simp]: "dbLog (bumpUsage s w) = dbLog w"
  and bumpUsage_chainLog [simp]: "chainLog (bumpUsage s w) = chainLog w"
  and bumpUsage_nextId [simp]: "nextId (bumpUsage s w) = nextId w"
  by (simp_all add: bumpUsage_def split: option.splits)

subsection \<open>PaymentTracker never accepts\<close>

text \<open>
  The account keys are never read: the expression throws for every transaction.
  So \<^verbatim>\<open>validateOnBlockchain\<close> answers every transaction that executed without
  error with \<^verbatim>\<open>Blockchain validation failed\<close>, no result of it is valid, and
  \<^verbatim>\<open>validatePayment\<close> accepts nothing: steps 3 and 4 are never reached.
\<close>

lemma keySegmentsFlat_throws:
  "keySegmentsFlat tx = Inl accountKeysUnresolved \<or> keySegmentsFlat tx = Inl flatNotAFunction"
  by (simp add: keySegmentsFlat_def split: option.splits prod.splits)

lemma extractTransfer_eq:
  "extractTransfer e tx =
     (case meta tx of
        None \<Rightarrow> invalidTx TxFailed
      | Some m \<Rightarrow>
          if err m \<noteq> None then invalidTx TxFailed
          else
            (case accountKeys tx of
               None \<Rightarrow> invalidTx (BlockchainValidationFailed accountKeysUnresolved)
             | Some keys \<Rightarrow> invalidTx (BlockchainValidationFailed flatNotAFunction)))"
  by (simp add: extractTransfer_def keySegmentsFlat_def split: option.splits prod.splits)

lemma extractTransfer_never_valid: "\<not> tiValid (extractTransfer e tx)"
  by (simp add: extractTransfer_eq invalidTx_def split: option.splits)

lemma extractTransfer_error: "\<exists>m. tiError (extractTransfer e tx) = Some m"
  by (simp add: extractTransfer_eq invalidTx_def split: option.splits)

lemma validateOnBlockchain_never_valid: "\<not> tiValid (fst (validateOnBlockchain e s w))"
  by (simp add: validateOnBlockchain_eq extractTransfer_never_valid invalidTx_def
      split: rpcResult.splits)

lemma validateOnBlockchain_error: "\<exists>m. tiError (fst (validateOnBlockchain e s w)) = Some m"
  using extractTransfer_error
  by (simp add: validateOnBlockchain_eq invalidTx_def split: rpcResult.splits)

subsection \<open>The paths through validatePayment\<close>

lemma checkPayment_fault:
  "dbFault e (length (dbLog w)) = Some m \<Longrightarrow>
     checkPayment e a w = (Inl m, w\<lparr>dbLog := dbLog w @ [SelectSig (vSignature a)]\<rparr>)"
  by (simp add: checkPayment_def getPaymentRecord_eq)

lemma checkPayment_hit:
  "dbFault e (length (dbLog w)) = None \<Longrightarrow> ledger w (vSignature a) = Some row \<Longrightarrow>
     checkPayment e a w =
       (case dbFault e (Suc (length (dbLog w))) of
          Some m \<Rightarrow>
            (Inl m, w\<lparr>dbLog := dbLog w @ [SelectSig (vSignature a), UpdateUsage (vSignature a)]\<rparr>)
        | None \<Rightarrow>
            (Inr (Decided (replayResult row)),
             bumpUsage (vSignature a)
               (w\<lparr>dbLog := dbLog w @ [SelectSig (vSignature a), UpdateUsage (vSignature a)]\<rparr>)))"
  by (simp add: checkPayment_def getPaymentRecord_eq incrementUsageCount_eq split: option.splits)

lemma checkPayment_miss:
  "dbFault e (length (dbLog w)) = None \<Longrightarrow> ledger w (vSignature a) = None \<Longrightarrow>
     checkPayment e a w =
       (Inr (Decided (rejectFirstUse (tiError (fst (validateOnBlockchain e (vSignature a) w))))),
        w\<lparr>dbLog := dbLog w @ [SelectSig (vSignature a)],
           chainLog := chainLog w @ [GetTransaction (vSignature a) Confirmed]\<rparr>)"
  using validateOnBlockchain_never_valid [of e "vSignature a" "w\<lparr>dbLog := dbLog w @ [SelectSig (vSignature a)]\<rparr>"]
  by (simp add: checkPayment_def getPaymentRecord_eq validateOnBlockchain_eq
      split: option.splits prod.splits)

lemma validatePayment_cases [consumes 0, case_names lookupFault replayFault replay rejected]:
  fixes e a w
  defines "s \<equiv> vSignature a" and "n \<equiv> length (dbLog w)"
  obtains
    (lookupFault) m where "dbFault e n = Some m"
      "validatePayment e a w = (caught m, w\<lparr>dbLog := dbLog w @ [SelectSig s]\<rparr>)"
  | (replayFault) row m where "dbFault e n = None" "ledger w s = Some row"
      "dbFault e (Suc n) = Some m"
      "validatePayment e a w = (caught m, w\<lparr>dbLog := dbLog w @ [SelectSig s, UpdateUsage s]\<rparr>)"
  | (replay) row where "dbFault e n = None" "ledger w s = Some row" "dbFault e (Suc n) = None"
      "validatePayment e a w =
         (replayResult row, bumpUsage s (w\<lparr>dbLog := dbLog w @ [SelectSig s, UpdateUsage s]\<rparr>))"
  | (rejected) m where "dbFault e n = None" "ledger w s = None"
      "tiError (fst (validateOnBlockchain e s w)) = Some m"
      "validatePayment e a w =
         (rejectFirstUse (Some m),
          w\<lparr>dbLog := dbLog w @ [SelectSig s],
             chainLog := chainLog w @ [GetTransaction s Confirmed]\<rparr>)"
proof (cases "dbFault e n")
  case (Some m)
  then have "validatePayment e a w = (caught m, w\<lparr>dbLog := dbLog w @ [SelectSig s]\<rparr>)"
    by (simp add: validatePayment_def checkPayment_fault finishPayment_def n_def s_def)
  with Some show ?thesis by (rule lookupFault)
next
  case None
  show ?thesis
  proof (cases "ledger w s")
    case (Some row)
    show ?thesis
    proof (cases "dbFault e (Suc n)")
      case f: None
      have "validatePayment e a w =
         (replayResult row, bumpUsage s (w\<lparr>dbLog := dbLog w @ [SelectSig s, UpdateUsage s]\<rparr>))"
        using None Some f
        by (simp add: validatePayment_def checkPayment_hit [of e w a row] finishPayment_def n_def s_def)
      with None Some f show ?thesis by (rule replay)
    next
      case f: (Some m)
      have "validatePayment e a w =
          (caught m, w\<lparr>dbLog := dbLog w @ [SelectSig s, UpdateUsage s]\<rparr>)"
        using None Some f
        by (simp add: validatePayment_def checkPayment_hit [of e w a row] finishPayment_def n_def s_def)
      with None Some f show ?thesis by (rule replayFault)
    qed
  next
    case miss: None
    obtain m where m: "tiError (fst (validateOnBlockchain e s w)) = Some m"
      using validateOnBlockchain_error [of e s w] by blast
    have "validatePayment e a w =
         (rejectFirstUse (Some m),
          w\<lparr>dbLog := dbLog w @ [SelectSig s],
             chainLog := chainLog w @ [GetTransaction s Confirmed]\<rparr>)"
      using None miss m
      by (simp add: validatePayment_def checkPayment_miss finishPayment_def n_def s_def)
    with None miss m show ?thesis by (rule rejected)
  qed
qed

lemma validatePayment_never_accepts: "\<not> isValid (fst (validatePayment e a w))"
  by (cases rule: validatePayment_cases [of e w a])
    (simp_all add: caught_def replayResult_def rejectFirstUse_def)

subsection \<open>The development-mode bypass\<close>

text \<open>
  C9. With \<^verbatim>\<open>NODE_ENV\<close> equal to \<^verbatim>\<open>development\<close> both middlewares call
  \<^verbatim>\<open>next()\<close> for every request, whatever its headers, and leave the world as it
  was: no statement is sent to the database, no row is created and the chain is not
  read.
\<close>

theorem dev_mode_bypass:
  "nodeEnv e = ''development'' \<Longrightarrow>
     validatePaymentMiddleware e requiredAmountSOL endpoint req w =
       (GateNext \<lparr>pSignature = ''dev-mode'', pNetwork = ''solana'', pAmount = ''0'',
                  isVerified = True\<rparr>, w)
     \<and> validateSOLPayment e expectedAmountSol endpointPath req w = (SolNext None, w)"
  by (simp add: validatePaymentMiddleware_def validateSOLPayment_def solCheck_def solFinish_def)

theorem dev_mode_bypass_witness:
  "nodeEnv envDev = ''development''
   \<and> validatePaymentMiddleware envDev priceA ''POST /api/query''
        (requestA\<lparr>hSignature := None\<rparr>) emptyWorld =
       (GateNext \<lparr>pSignature = ''dev-mode'', pNetwork = ''solana'', pAmount = ''0'',
                  isVerified = True\<rparr>, emptyWorld)
   \<and> validateSOLPayment envDev priceA ''POST /api/query''
        (requestA\<lparr>hSignature := Some []\<rparr>) emptyWorld = (SolNext None, emptyWorld)"
proof -
  have dev: "nodeEnv envDev = ''development''"
    by (simp add: envDev_def)
  show ?thesis
    using dev dev_mode_bypass [OF dev, of priceA "''POST /api/query''"
        "requestA\<lparr>hSignature := None\<rparr>" emptyWorld priceA "''POST /api/query''"]
      dev_mode_bypass [OF dev, of priceA "''POST /api/query''"
        "requestA\<lparr>hSignature := Some []\<rparr>" emptyWorld priceA "''POST /api/query''"]
    by simp
qed

subsection \<open>SimplePaymentTracker and the lookup loop\<close>

lemma isSignatureUsed_eq:
  "isSignatureUsed e s w =
     (case dbFault e (length (dbLog w)) of Some m \<Rightarrow> False | None \<Rightarrow> ledger w s \<noteq> None,
      w\<lparr>dbLog := dbLog w @ [SelectSig s]\<rparr>)"
  by (simp add: isSignatureUsed_def dbExec_def Let_def split: option.splits)

lemma recordReplayAttempt_eq:
  "recordReplayAttempt e s ip ua w =
     (case dbFault e (length (dbLog w)) of
        Some m \<Rightarrow> w\<lparr>dbLog := dbLog w @ [UpdateUsage s]\<rparr>
      | None \<Rightarrow> bumpUsage s (w\<lparr>dbLog := dbLog w @ [UpdateUsage s]\<rparr>))"
  by (simp add: recordReplayAttempt_def dbExec_def Let_def split: option.splits)

lemma getTransaction_eq:
  "getTransaction e s c w =
     (rpcValue (rpc e (length (chainLog w)) s c),
      w\<lparr>chainLog := chainLog w @ [GetTransaction s c]\<rparr>)"
  by (simp add: getTransaction_def rpcValue_def Let_def split: rpcResult.splits)

lemma lookupLoop_done: "lookupLoop e s t 2 w = (Inr t, w)"
  by (simp add: lookupLoop.simps maxAttempts_def)

lemma lookupLoop_found: "lookupLoop e s (Some tx) k w = (Inr (Some tx), w)"
  by (simp add: lookupLoop.simps)

lemma lookupLoop_round:
  assumes "k < 2"
  shows "lookupLoop e s None k w =
     (let n = length (chainLog w);
          r0 = rpc e n s Confirmed;
          r1 = rpc e (n + 1) s Finalized;
          c = GetTransaction s Confirmed;
          f = GetTransaction s Finalized
      in if r0 \<noteq> RpcNull then (rpcValue r0, w\<lparr>chainLog := chainLog w @ [c]\<rparr>)
         else if r1 \<noteq> RpcNull then (rpcValue r1, w\<lparr>chainLog := chainLog w @ [c, f]\<rparr>)
         else lookupLoop e s None (k + 1)
                (if k + 1 < 2 then w\<lparr>chainLog := chainLog w @ [c, f, Sleep 1000]\<rparr>
                 else w\<lparr>chainLog := chainLog w @ [c, f]\<rparr>))"
proof -
  have unfold: "lookupLoop e s None k w =
     (case getTransaction e s Confirmed w of
           (Inl m, w1) \<Rightarrow> (Inl m, w1)
         | (Inr t1, w1) \<Rightarrow>
             (case (if t1 = None then getTransaction e s Finalized w1 else (Inr t1, w1)) of
                (Inl m, w2) \<Rightarrow> (Inl m, w2)
              | (Inr t2, w2) \<Rightarrow>
                  lookupLoop e s t2 (k + 1)
                    (if t2 = None \<and> k + 1 < maxAttempts then sleep 1000 w2 else w2)))"
    using assms by (subst lookupLoop.simps) (simp add: maxAttempts_def)
  show ?thesis
  proof (cases "rpc e (length (chainLog w)) s Confirmed")
    case (RpcError m)
    then show ?thesis
      by (simp add: unfold getTransaction_eq rpcValue_def Let_def)
  next
    case (RpcTx tx)
    then show ?thesis
      by (simp add: unfold getTransaction_eq rpcValue_def Let_def lookupLoop_found)
  next
    case RpcNull
    show ?thesis
    proof (cases "rpc e (length (chainLog w) + 1) s Finalized")
      case (RpcError m)
      with RpcNull show ?thesis
        by (simp add: unfold getTransaction_eq rpcValue_def Let_def)
    next
      case (RpcTx tx)
      with RpcNull show ?thesis
        by (simp add: unfold getTransaction_eq rpcValue_def Let_def lookupLoop_found)
    next
      case n2: RpcNull
      with RpcNull show ?thesis
        by (simp add: unfold getTransaction_eq rpcValue_def Let_def maxAttempts_def sleep_def)
    qed
  qed
qed

lemma lookupLoop_unrolled:
  "lookupLoop e s None 0 w =
     (let n = length (chainLog w);
          r0 = rpc e n s Confirmed;
          r1 = rpc e (n + 1) s Finalized;
          r2 = rpc e (n + 3) s Confirmed;
          r3 = rpc e (n + 4) s Finalized;
          c = GetTransaction s Confirmed;
          f = GetTransaction s Finalized
      in if r0 \<noteq> RpcNull then (rpcValue r0, w\<lparr>chainLog := chainLog w @ [c]\<rparr>)
         else if r1 \<noteq> RpcNull then (rpcValue r1, w\<lparr>chainLog := chainLog w @ [c, f]\<rparr>)
         else if r2 \<noteq> RpcNull then
           (rpcValue r2, w\<lparr>chainLog := chainLog w @ [c, f, Sleep 1000, c]\<rparr>)
         else if r3 \<noteq> RpcNull then
           (rpcValue r3, w\<lparr>chainLog := chainLog w @ [c, f, Sleep 1000, c, f]\<rparr>)
         else (Inr None, w\<lparr>chainLog := chainLog w @ [c, f, Sleep 1000, c, f]\<rparr>))"
proof -
  have one: "Suc 0 < 2" and zero: "(0::nat) < 2" by simp_all
  have fin: "lookupLoop e s t (Suc (Suc 0)) w' = (Inr t, w')" for t w'
    using lookupLoop_done [of e s t w'] by (simp add: numeral_2_eq_2)
  have idx: "n + 3 = Suc (Suc (Suc n))" "n + 4 = Suc (Suc (Suc (Suc n)))" for n :: nat
    by simp_all
  have null: "rpcValue RpcNull = Inr None"
    by (simp add: rpcValue_def)
  show ?thesis
    by (simp add: lookupLoop_round [OF zero] lookupLoop_round [OF one] fin Let_def idx null)
qed


lemma simpleInsert_eq:
  "simpleInsert e s sol currency ip ua ep now w =
     (case dbFault e (length (dbLog w)) of
        Some m \<Rightarrow> (Inl m, w\<lparr>dbLog := dbLog w @ [InsertSig s]\<rparr>)
      | None \<Rightarrow>
         if \<not> inetText ip then (Inl (invalidInet ip), w\<lparr>dbLog := dbLog w @ [InsertSig s]\<rparr>)
         else
           (case ledger w s of
              Some x \<Rightarrow>
                (Inl duplicateKey,
                 w\<lparr>dbLog := dbLog w @ [InsertSig s], nextId := Suc (nextId w)\<rparr>)
            | None \<Rightarrow>
                (Inr (),
                 w\<lparr>dbLog := dbLog w @ [InsertSig s],
                   ledger := (ledger w)(s \<mapsto>
                     \<lparr>id = Some (nextId w), signature = s, network = ''solana'',
                      amount = solToLamports sol, asset = currency,
                      senderAddress = simpleSender, receiverAddress = simpleReceiver,
                      apiEndpoint = ep, blockTime = None,
                      firstUsedAt = now, usageCount = 1,
                      ipAddress = Some ip, userAgent = Some ua\<rparr>),
                   nextId := Suc (nextId w)\<rparr>)))"
  by (simp add: simpleInsert_def dbExec_def refusedInet_def Let_def split: option.splits)

lemma simpleRecordPayment_eq:
  "simpleRecordPayment e s sol currency ip ua ep now w =
     (case dbFault e (length (dbLog w)) of
        Some m \<Rightarrow> w\<lparr>dbLog := dbLog w @ [InsertSig s]\<rparr>
      | None \<Rightarrow>
         if \<not> inetText ip then w\<lparr>dbLog := dbLog w @ [InsertSig s]\<rparr>
         else
           (case ledger w s of
              Some x \<Rightarrow> w\<lparr>dbLog := dbLog w @ [InsertSig s], nextId := Suc (nextId w)\<rparr>
            | None \<Rightarrow>
                w\<lparr>dbLog := dbLog w @ [InsertSig s],
                  ledger := (ledger w)(s \<mapsto>
                     \<lparr>id = Some (nextId w), signature = s, network = ''solana'',
                      amount = solToLamports sol, asset = currency,
                      senderAddress = simpleSender, receiverAddress = simpleReceiver,
                      apiEndpoint = ep, blockTime = None,
                      firstUsedAt = now, usageCount = 1,
                      ipAddress = Some ip, userAgent = Some ua\<rparr>),
                  nextId := Suc (nextId w)\<rparr>))"
  by (simp add: simpleRecordPayment_def simpleInsert_eq split: option.splits)


lemma lookupLoop_chainLog:
  "chainLog (snd (lookupLoop e s None 0 w)) = chainLog w @
     (let n = length (chainLog w);
          c = GetTransaction s Confirmed;
          f = GetTransaction s Finalized
      in if rpc e n s Confirmed \<noteq> RpcNull then [c]
         else if rpc e (n + 1) s Finalized \<noteq> RpcNull then [c, f]
         else if rpc e (n + 3) s Confirmed \<noteq> RpcNull then [c, f, Sleep 1000, c]
         else [c, f, Sleep 1000, c, f])"
  by (simp add: lookupLoop_unrolled Let_def)

lemma lookupLoop_none:
  "fst (lookupLoop e s None 0 w) = Inr None \<longleftrightarrow>
     (let n = length (chainLog w)
      in rpc e n s Confirmed = RpcNull \<and> rpc e (n + 1) s Finalized = RpcNull
         \<and> rpc e (n + 3) s Confirmed = RpcNull \<and> rpc e (n + 4) s Finalized = RpcNull)"
  by (auto simp add: lookupLoop_unrolled Let_def rpcValue_def split: rpcResult.splits)

subsection \<open>The paths through validateSOLPayment\<close>

lemma solCheck_used:
  assumes "nodeEnv e \<noteq> ''development''" "hSignature req = Some sig" "sig \<noteq> []"
    and "dbFault e (length (dbLog w)) = None" "ledger w sig = Some row"
  shows "solCheck e price req w =
     (SolDecided (SolJson 409 SolAlreadyUsed),
      recordReplayAttempt e sig (orUnknown (clientAddr req)) (orUnknown (hUserAgent req))
        (w\<lparr>dbLog := dbLog w @ [SelectSig sig]\<rparr>))"
  using assms by (simp add: solCheck_def isSignatureUsed_eq)

lemma solCheck_unused:
  assumes "nodeEnv e \<noteq> ''development''" "hSignature req = Some sig" "sig \<noteq> []"
    and "dbFault e (length (dbLog w)) \<noteq> None \<or> ledger w sig = None"
  shows "solCheck e price req w =
     (case fst (lookupLoop e sig None 0 (w\<lparr>dbLog := dbLog w @ [SelectSig sig]\<rparr>)) of
        Inl m \<Rightarrow> SolDecided (SolJson 500 SolVerificationFailed)
      | Inr None \<Rightarrow> SolDecided (SolJson 400 SolNotFound)
      | Inr (Some tx) \<Rightarrow> solInspect e price sig tx,
      snd (lookupLoop e sig None 0 (w\<lparr>dbLog := dbLog w @ [SelectSig sig]\<rparr>)))"
proof -
  obtain r w2 where L: "lookupLoop e sig None 0 (w\<lparr>dbLog := dbLog w @ [SelectSig sig]\<rparr>) = (r, w2)"
    by (cases "lookupLoop e sig None 0 (w\<lparr>dbLog := dbLog w @ [SelectSig sig]\<rparr>)")
  have used: "fst (isSignatureUsed e sig w) = False"
    using assms(4) by (auto simp: isSignatureUsed_eq split: option.splits)
  have w1: "snd (isSignatureUsed e sig w) = w\<lparr>dbLog := dbLog w @ [SelectSig sig]\<rparr>"
    by (simp add: isSignatureUsed_eq)
  have "isSignatureUsed e sig w = (False, w\<lparr>dbLog := dbLog w @ [SelectSig sig]\<rparr>)"
    using used w1 by (metis prod.collapse)
  then show ?thesis
    using assms(1-3) by (simp add: solCheck_def L split: sum.splits option.splits)
qed

lemma solInspect_cases:
  "solInspect e price sig tx = SolDecided (SolJson 400 SolTxFailed)
   \<or> solInspect e price sig tx = SolDecided (SolJson 500 SolVerificationFailed)
   \<or> solInspect e price sig tx = SolDecided (SolJson 400 SolWrongAddress)
   \<or> (\<exists>d. solInspect e price sig tx = SolDecided (SolJson 400 (SolInsufficient d)))
   \<or> (\<exists>d. solInspect e price sig tx = SolToRecord sig d)"
  by (auto simp: solInspect_def Let_def split: option.splits)

lemma validateSOLPayment_cases [consumes 3, case_names replay rejected recorded]:
  assumes "nodeEnv e \<noteq> ''development''" "hSignature req = Some sig" "sig \<noteq> []"
  obtains
    (replay) row where "dbFault e (length (dbLog w)) = None" "ledger w sig = Some row"
      "validateSOLPayment e price ep req w =
         (SolJson 409 SolAlreadyUsed,
          recordReplayAttempt e sig (orUnknown (clientAddr req)) (orUnknown (hUserAgent req))
            (w\<lparr>dbLog := dbLog w @ [SelectSig sig]\<rparr>))"
  | (rejected) code reason where
      "dbFault e (length (dbLog w)) \<noteq> None \<or> ledger w sig = None"
      "validateSOLPayment e price ep req w =
         (SolJson code reason,
          snd (lookupLoop e sig None 0 (w\<lparr>dbLog := dbLog w @ [SelectSig sig]\<rparr>)))"
      "(\<exists>m. fst (lookupLoop e sig None 0 (w\<lparr>dbLog := dbLog w @ [SelectSig sig]\<rparr>)) = Inl m)
         \<longrightarrow> code = 500 \<and> reason = SolVerificationFailed"
      "fst (lookupLoop e sig None 0 (w\<lparr>dbLog := dbLog w @ [SelectSig sig]\<rparr>)) = Inr None
         \<longleftrightarrow> code = 400 \<and> reason = SolNotFound"
  | (recorded) tx d where
      "dbFault e (length (dbLog w)) \<noteq> None \<or> ledger w sig = None"
      "fst (lookupLoop e sig None 0 (w\<lparr>dbLog := dbLog w @ [SelectSig sig]\<rparr>)) = Inr (Some tx)"
      "solInspect e price sig tx = SolToRecord sig d"
      "validateSOLPayment e price ep req w =
         (SolNext (Some \<lparr>paymentVerified = True, paymentType = ''SOL'',
                          paymentAmount = d, paymentSignature = sig\<rparr>),
          simpleRecordPayment e sig d ''SOL'' (orUnknown (clientAddr req))
            (orUnknown (hUserAgent req)) ep (arrival req)
            (snd (lookupLoop e sig None 0 (w\<lparr>dbLog := dbLog w @ [SelectSig sig]\<rparr>))))"
proof (cases "dbFault e (length (dbLog w)) = None \<and> ledger w sig \<noteq> None")
  case True
  then obtain row where row: "ledger w sig = Some row" by auto
  have "validateSOLPayment e price ep req w =
         (SolJson 409 SolAlreadyUsed,
          recordReplayAttempt e sig (orUnknown (clientAddr req)) (orUnknown (hUserAgent req))
            (w\<lparr>dbLog := dbLog w @ [SelectSig sig]\<rparr>))"
    using True row
    by (simp add: validateSOLPayment_def solCheck_used [OF assms _ row] solFinish_def)
  with True row show ?thesis by (intro replay) simp_all
next
  case False
  then have un: "dbFault e (length (dbLog w)) \<noteq> None \<or> ledger w sig = None" by auto
  let ?L = "lookupLoop e sig None 0 (w\<lparr>dbLog := dbLog w @ [SelectSig sig]\<rparr>)"
  note chk = solCheck_unused [OF assms un, of price]
  show ?thesis
  proof (cases "fst ?L")
    case (Inl m)
    then have "validateSOLPayment e price ep req w = (SolJson 500 SolVerificationFailed, snd ?L)"
      by (simp add: validateSOLPayment_def chk solFinish_def)
    with un Inl show ?thesis
      by (intro rejected [of 500 SolVerificationFailed]) simp_all
  next
    case (Inr t)
    show ?thesis
    proof (cases t)
      case None
      with Inr have "validateSOLPayment e price ep req w = (SolJson 400 SolNotFound, snd ?L)"
        by (simp add: validateSOLPayment_def chk solFinish_def)
      with un Inr None show ?thesis
        by (intro rejected [of 400 SolNotFound]) simp_all
    next
      case (Some tx)
      with Inr have L: "fst ?L = Inr (Some tx)" by simp
      have v: "validateSOLPayment e price ep req w =
          solFinish e ep req (solInspect e price sig tx, snd ?L)"
        using L by (simp add: validateSOLPayment_def chk)
      consider (dec) code reason where "solInspect e price sig tx = SolDecided (SolJson code reason)"
          "reason \<noteq> SolNotFound"
        | (rec) d where "solInspect e price sig tx = SolToRecord sig d"
        using solInspect_cases [of e price sig tx] by auto
      then show ?thesis
      proof cases
        case dec
        then have "validateSOLPayment e price ep req w = (SolJson code reason, snd ?L)"
          by (simp add: v solFinish_def)
        with un dec L show ?thesis
          by (intro rejected [of code reason]) simp_all
      next
        case rec
        then have "validateSOLPayment e price ep req w =
         (SolNext (Some \<lparr>paymentVerified = True, paymentType = ''SOL'',
                          paymentAmount = d, paymentSignature = sig\<rparr>),
          simpleRecordPayment e sig d ''SOL'' (orUnknown (clientAddr req))
            (orUnknown (hUserAgent req)) ep (arrival req) (snd ?L))"
          by (simp add: v solFinish_def solRecord_def)
        with un L rec show ?thesis
          by (intro recorded [of tx d])
      qed
    qed
  qed
qed

subsection \<open>The usage counter\<close>












lemma simpleRecordPayment_chainLog [simp]:
  "chainLog (simpleRecordPayment e s sol currency ip ua ep now w) = chainLog w"
  by (simp add: simpleRecordPayment_eq split: option.splits)

subsection \<open>The scenario, evaluated\<close>

lemma envA_fields [simp]:
  "nodeEnv envA = ''production''" "receiverAddress_cfg envA = ''R''" "receiverKeyValid envA"
  "dbFault envA n = None" "rpc envA = nodeA"
  by (simp_all add: envA_def)

lemma envSlow_fields [simp]:
  "nodeEnv envSlow = ''production''" "receiverAddress_cfg envSlow = ''R''"
  "receiverKeyValid envSlow" "dbFault envSlow n = None"
  "rpc envSlow n sig c = (if n < 3 then RpcNull else RpcTx txA)"
  by (simp_all add: envSlow_def)

lemma envUpdateDown_fields [simp]:
  "nodeEnv envUpdateDown = ''production''" "receiverAddress_cfg envUpdateDown = ''R''"
  "receiverKeyValid envUpdateDown"
  "dbFault envUpdateDown n =
     (if n = 3 then Some ''Connection terminated unexpectedly'' else None)"
  "rpc envUpdateDown = nodeA"
  by (simp_all add: envUpdateDown_def)

lemma envOf_fields [simp]:
  "nodeEnv (envOf x) = ''production''" "receiverAddress_cfg (envOf x) = ''R''"
  "receiverKeyValid (envOf x)" "dbFault (envOf x) n = None"
  "rpc (envOf x) n sig c = RpcTx (txOf x)"
  by (simp_all add: envOf_def)

lemma envBig_fields [simp]:
  "nodeEnv envBig = ''production''" "receiverAddress_cfg envBig = ''R''"
  "receiverKeyValid envBig" "dbFault envBig n = None"
  "rpc envBig n sig c = RpcTx (txOf 8388608000000001)"
  by (simp_all add: envBig_def)

lemma emptyWorld_fields [simp]:
  "ledger emptyWorld = Map.empty" "nextId emptyWorld = 1" "dbLog emptyWorld = []"
  "chainLog emptyWorld = []"
  by (simp_all add: emptyWorld_def)

lemma usedWorld_fields [simp]:
  "ledger usedWorld = [''SIG_A'' \<mapsto> rowA]" "nextId usedWorld = 2"
  "dbLog usedWorld = [SelectSig ''SIG_A'', InsertSig ''SIG_A'']"
  "chainLog usedWorld = [GetTransaction ''SIG_A'' Confirmed]"
  by (simp_all add: usedWorld_def)

lemma argsA_fields [simp]:
  "vSignature argsA = ''SIG_A''" "expectedAmount argsA = 100000"
  "expectedAsset argsA = ''native''" "vEndpoint argsA = ''POST /api/query''"
  "vClientIP argsA = Some ''10.0.0.1''" "vUserAgent argsA = Some ''curl''" "vNow argsA = 1000"
  by (simp_all add: argsA_def)

lemma requestA_fields [simp]:
  "hSignature requestA = Some ''SIG_A''" "hNetwork requestA = Some ''solana''"
  "hAmount requestA = Some ''100000''" "clientAddr requestA = Some ''10.0.0.1''"
  "hUserAgent requestA = Some ''curl''" "arrival requestA = 1000"
  by (simp_all add: requestA_def)

lemma requestNoIp_fields [simp]:
  "hSignature requestNoIp = Some ''SIG_A''" "clientAddr requestNoIp = None"
  "hUserAgent requestNoIp = Some ''curl''" "arrival requestNoIp = 1000"
  by (simp_all add: requestNoIp_def)

lemma inetText_A [simp]: "inetText ''10.0.0.1''"
  by (simp add: inetText_def)

lemma inetText_unknown [simp]: "\<not> inetText ''unknown''"
  by (simp add: inetText_def)

lemma orUnknown_simps [simp]:
  "orUnknown None = ''unknown''" "orUnknown (Some ''10.0.0.1'') = ''10.0.0.1''"
  "orUnknown (Some ''curl'') = ''curl''"
  by (simp_all add: orUnknown_def)

lemma nodeA_SIG_A [simp]: "nodeA n ''SIG_A'' c = RpcTx txA"
  by (simp add: nodeA_def)

lemma solInspect_A:
  "receiverAddress_cfg e = ''R'' \<Longrightarrow> receiverKeyValid e \<Longrightarrow>
   solInspect e priceA ''SIG_A'' txA = SolToRecord ''SIG_A'' (lamportsToSol 150000)"
  by (simp add: solInspect_def txA_def balanceOrZero_def balanceAt_def Let_def received_A)

lemma solCheck_A:
  assumes "nodeEnv e = ''production''" "receiverAddress_cfg e = ''R''" "receiverKeyValid e"
    and "rpc e = nodeA"
    and "dbFault e (length (dbLog w)) \<noteq> None \<or> ledger w ''SIG_A'' = None"
    and "hSignature req = Some ''SIG_A''"
  shows "solCheck e priceA req w =
     (SolToRecord ''SIG_A'' (lamportsToSol 150000),
      w\<lparr>dbLog := dbLog w @ [SelectSig ''SIG_A''],
         chainLog := chainLog w @ [GetTransaction ''SIG_A'' Confirmed]\<rparr>)"
proof -
  have "nodeEnv e \<noteq> ''development''" using assms(1) by simp
  from solCheck_unused [OF this assms(6) _ assms(5), of priceA] assms(2-4)
  show ?thesis
    by (simp add: lookupLoop_unrolled Let_def rpcValue_def solInspect_A)
qed


text \<open>
  \<^verbatim>\<open>PaymentTracker.validatePayment\<close> on \<open>SIG_A\<close>, whose transaction pays more than
  the price: refused, with the \<^verbatim>\<open>TypeError\<close> of the account keys as the reason, and
  no insert. Two racing requests get that answer both.
\<close>

lemma validatePayment_rejects_A:
  "validatePayment envA argsA emptyWorld =
     (\<lparr>isValid = False, isFirstUse = True,
       error = Some (BlockchainValidationFailed flatNotAFunction), paymentRecord = None\<rparr>,
      emptyWorld\<lparr>dbLog := [SelectSig ''SIG_A''],
                  chainLog := [GetTransaction ''SIG_A'' Confirmed]\<rparr>)"
  by (simp add: validatePayment_def checkPayment_miss finishPayment_def validateOnBlockchain_eq
      extractTransfer_eq txA_def invalidTx_def rejectFirstUse_def)

lemma raceValidatePayment_rejects_both:
  "raceValidatePayment envA argsA argsA emptyWorld =
     (\<lparr>isValid = False, isFirstUse = True,
       error = Some (BlockchainValidationFailed flatNotAFunction), paymentRecord = None\<rparr>,
      \<lparr>isValid = False, isFirstUse = True,
       error = Some (BlockchainValidationFailed flatNotAFunction), paymentRecord = None\<rparr>,
      emptyWorld\<lparr>dbLog := [SelectSig ''SIG_A'', SelectSig ''SIG_A''],
                  chainLog := [GetTransaction ''SIG_A'' Confirmed,
                               GetTransaction ''SIG_A'' Confirmed]\<rparr>)"
  by (simp add: raceValidatePayment_def checkPayment_miss finishPayment_def
      validateOnBlockchain_eq extractTransfer_eq txA_def invalidTx_def rejectFirstUse_def)

subsection \<open>The replay path\<close>




subsection \<open>Presentations and the usage counter\<close>

text \<open>
  A request without a client address is recorded with the placeholder
  \<^verbatim>\<open>unknown\<close>, which the column \<^verbatim>\<open>ip_address\<close> refuses: the request is accepted
  and no row is written.
\<close>

lemma unknown_address_not_recorded:
  "validateSOLPayment envA priceA ''POST /api/query'' requestNoIp emptyWorld =
     (SolNext (Some \<lparr>paymentVerified = True, paymentType = ''SOL'',
                      paymentAmount = lamportsToSol 150000, paymentSignature = ''SIG_A''\<rparr>),
      emptyWorld\<lparr>dbLog := [SelectSig ''SIG_A'', InsertSig ''SIG_A''],
                  chainLog := [GetTransaction ''SIG_A'' Confirmed]\<rparr>)"
  by (simp add: validateSOLPayment_def solCheck_A solFinish_def solRecord_def
      simpleRecordPayment_eq)




subsection \<open>Amounts and their comparison\<close>







subsection \<open>The amount boundary\<close>




subsection \<open>The chain lookup\<close>

text \<open>
  C8. For a signature with no row, \<^verbatim>\<open>validateSOLPayment\<close> reads the chain in this
  order and no further: \<^verbatim>\<open>confirmed\<close>; \<^verbatim>\<open>finalized\<close> only if that was empty; if
  both were empty a wait of 1000 ms and the same two lookups once more. Each lookup
  that gives a transaction or throws ends the sequence. The answer is
  \<^verbatim>\<open>Transaction not found\<close> exactly when all four lookups were empty. The loop is a
  total function, so it always ends. \<^verbatim>\<open>PaymentTracker.validateOnBlockchain\<close> reads
  once, at \<^verbatim>\<open>confirmed\<close>.
\<close>

theorem chain_lookup_sequence:
  assumes "nodeEnv e \<noteq> ''development''" "hSignature req = Some sig" "sig \<noteq> []"
    and fresh: "ledger w sig = None"
  shows "chainLog (snd (validateSOLPayment e price ep req w)) = chainLog w @
           (let n = length (chainLog w);
                c = GetTransaction sig Confirmed;
                f = GetTransaction sig Finalized
            in if rpc e n sig Confirmed \<noteq> RpcNull then [c]
               else if rpc e (n + 1) sig Finalized \<noteq> RpcNull then [c, f]
               else if rpc e (n + 3) sig Confirmed \<noteq> RpcNull then [c, f, Sleep 1000, c]
               else [c, f, Sleep 1000, c, f])
     \<and> (fst (validateSOLPayment e price ep req w) = SolJson 400 SolNotFound \<longleftrightarrow>
          (let n = length (chainLog w)
           in rpc e n sig Confirmed = RpcNull \<and> rpc e (n + 1) sig Finalized = RpcNull
              \<and> rpc e (n + 3) sig Confirmed = RpcNull \<and> rpc e (n + 4) sig Finalized = RpcNull))
     \<and> (vSignature a = sig \<and> dbFault e (length (dbLog w)) = None \<longrightarrow>
          chainLog (snd (validatePayment e a w)) = chainLog w @ [GetTransaction sig Confirmed])"
proof -
  let ?w1 = "w\<lparr>dbLog := dbLog w @ [SelectSig sig]\<rparr>"
  have sol: "chainLog (snd (validateSOLPayment e price ep req w)) =
      chainLog (snd (lookupLoop e sig None 0 ?w1))
    \<and> (fst (validateSOLPayment e price ep req w) = SolJson 400 SolNotFound \<longleftrightarrow>
         fst (lookupLoop e sig None 0 ?w1) = Inr None)"
    using assms(1-3)
  proof (cases rule: validateSOLPayment_cases [where w = w and price = price and ep = ep])
    case (replay row)
    with fresh show ?thesis by simp
  next
    case (rejected code reason)
    then show ?thesis by auto
  next
    case (recorded tx d)
    then show ?thesis by simp
  qed
  have tracker: "chainLog (snd (validatePayment e a w)) = chainLog w @ [GetTransaction sig Confirmed]"
    if "vSignature a = sig" "dbFault e (length (dbLog w)) = None"
    using that fresh
    by (cases rule: validatePayment_cases [of e w a]) simp_all
  show ?thesis
    using sol tracker lookupLoop_chainLog [of e sig ?w1] lookupLoop_none [of e sig ?w1]
    by simp
qed

theorem chain_lookup_sequence_witness:
  "nodeEnv envSlow \<noteq> ''development'' \<and> hSignature requestA = Some ''SIG_A'' \<and> ''SIG_A'' \<noteq> []
   \<and> ledger emptyWorld ''SIG_A'' = None
   \<and> chainLog (snd (validateSOLPayment envSlow priceA ''POST /api/query'' requestA emptyWorld)) =
       [GetTransaction ''SIG_A'' Confirmed, GetTransaction ''SIG_A'' Finalized, Sleep 1000,
        GetTransaction ''SIG_A'' Confirmed]
   \<and> fst (validateSOLPayment envSlow priceA ''POST /api/query'' requestA emptyWorld) \<noteq>
       SolJson 400 SolNotFound
   \<and> chainLog (snd (validatePayment envSlow argsA emptyWorld)) =
       [GetTransaction ''SIG_A'' Confirmed]"
proof -
  have h: "nodeEnv envSlow \<noteq> ''development''" "hSignature requestA = Some ''SIG_A''"
    "''SIG_A'' \<noteq> []" "ledger emptyWorld ''SIG_A'' = None"
    by simp_all
  have a: "vSignature argsA = ''SIG_A''" "dbFault envSlow (length (dbLog emptyWorld)) = None"
    by simp_all
  have r: "rpc envSlow (length (chainLog emptyWorld)) ''SIG_A'' Confirmed = RpcNull"
    "rpc envSlow (length (chainLog emptyWorld) + 1) ''SIG_A'' Finalized = RpcNull"
    "rpc envSlow (length (chainLog emptyWorld) + 3) ''SIG_A'' Confirmed = RpcTx txA"
    "chainLog emptyWorld = []"
    by simp_all
  show ?thesis
    using h a r chain_lookup_sequence [OF h, of priceA "''POST /api/query''" argsA]
    by (simp add: Let_def)
qed

subsection \<open>Exceptions on the way\<close>

lemma envChainDown_fields [simp]:
  "nodeEnv envChainDown = ''production''" "receiverAddress_cfg envChainDown = ''R''"
  "receiverKeyValid envChainDown" "dbFault envChainDown n = None"
  "rpc envChainDown n sig c = RpcError ''timeout''"
  by (simp_all add: envChainDown_def)

lemma envDbDown_fields [simp]:
  "nodeEnv envDbDown = ''production''" "receiverAddress_cfg envDbDown = ''R''"
  "receiverKeyValid envDbDown" "dbFault envDbDown n = Some ''connection refused''"
  "rpc envDbDown = nodeA"
  by (simp_all add: envDbDown_def)

lemma chainThrew_none: "chainLog w' = chainLog w \<Longrightarrow> \<not> chainThrew e w w'"
  by (simp add: chainThrew_def)

lemma chainThrew_one:
  "chainLog w' = chainLog w @ [GetTransaction s c] \<Longrightarrow>
     chainThrew e w w' \<longleftrightarrow> (\<exists>m. rpc e (length (chainLog w)) s c = RpcError m)"
  by (auto simp add: chainThrew_def split: rpcResult.splits)

lemma validatePayment_dbThrew:
  assumes "dbThrew e w (snd (validatePayment e a w))"
  shows "\<exists>m. fst (validatePayment e a w) = caught m"
  using assms
  by (cases rule: validatePayment_cases [of e w a])
    (auto simp add: dbThrew_def atLeastLessThanSuc)

lemma validatePayment_chainThrew:
  assumes "chainThrew e w (snd (validatePayment e a w))"
  shows "\<exists>m. fst (validatePayment e a w) = rejectFirstUse (Some (BlockchainValidationFailed m))"
proof -
  have ti: "rpc e (length (chainLog w)) (vSignature a) Confirmed = RpcError m \<Longrightarrow>
      fst (validateOnBlockchain e (vSignature a) w) = invalidTx (BlockchainValidationFailed m)" for m
    by (simp add: validateOnBlockchain_eq)
  show ?thesis
    using assms
  proof (cases rule: validatePayment_cases [of e w a])
    case (rejected m)
    then obtain m' where "rpc e (length (chainLog w)) (vSignature a) Confirmed = RpcError m'"
      using assms by (auto simp: chainThrew_one)
    with rejected ti [of m'] show ?thesis by (auto simp: invalidTx_def)
  qed (simp_all add: chainThrew_none)
qed

lemma middleware_with_headers:
  assumes "nodeEnv e \<noteq> ''development''"
    and "hSignature req = Some sig" "sig \<noteq> []"
    and "hNetwork req = Some net" "net \<noteq> []"
    and "hAmount req = Some amt" "amt \<noteq> []"
    and "expectedLamports price = Some expected"
  shows "fst (validatePaymentMiddleware e price ep req w) =
     (let r = fst (validatePayment e
                \<lparr>vSignature = sig, expectedAmount = expected, expectedAsset = ''native'',
                 vEndpoint = ep, vClientIP = clientAddr req, vUserAgent = hUserAgent req,
                 vNow = arrival req\<rparr> w)
      in if \<not> isValid r then rejection r
         else GateNext \<lparr>pSignature = sig, pNetwork = net, pAmount = amt, isVerified = True\<rparr>)"
  using assms
  by (simp add: validatePaymentMiddleware_def Let_def split: prod.splits)

lemma chainThrew_cong: "chainLog w'' = chainLog w' \<Longrightarrow> chainThrew e w w'' = chainThrew e w w'"
  by (simp add: chainThrew_def)

lemma lookupLoop_chainThrew:
  assumes thr: "chainThrew e w (snd (lookupLoop e s None 0 w1))"
    and same: "chainLog w1 = chainLog w"
  shows "\<exists>m. fst (lookupLoop e s None 0 w1) = Inl m"
proof -
  let ?n = "length (chainLog w)"
  let ?c = "GetTransaction s Confirmed" and ?f = "GetTransaction s Finalized"
  have null: "rpcValue RpcNull = Inr None" by (simp add: rpcValue_def)
  have idx: "n + 3 = Suc (Suc (Suc n))" "n + 4 = Suc (Suc (Suc (Suc n)))" for n :: nat
    by simp_all
  have err: "(case r of RpcError m \<Rightarrow> True | _ \<Rightarrow> False) \<Longrightarrow> \<exists>m'. rpcValue r = Inl m'" for r
    by (cases r) (simp_all add: rpcValue_def)
  show ?thesis
  proof (cases "rpc e ?n s Confirmed = RpcNull")
    case False
    then have L: "lookupLoop e s None 0 w1 =
        (rpcValue (rpc e ?n s Confirmed), w1\<lparr>chainLog := chainLog w @ [?c]\<rparr>)"
      by (simp add: lookupLoop_unrolled Let_def same)
    have "case rpc e ?n s Confirmed of RpcError m \<Rightarrow> True | _ \<Rightarrow> False"
      using thr by (simp add: L chainThrew_def)
    then show ?thesis using err by (simp add: L)
  next
    case r0: True
    show ?thesis
    proof (cases "rpc e (?n + 1) s Finalized = RpcNull")
      case False
      then have L: "lookupLoop e s None 0 w1 =
          (rpcValue (rpc e (?n + 1) s Finalized), w1\<lparr>chainLog := chainLog w @ [?c, ?f]\<rparr>)"
        using r0 by (simp add: lookupLoop_unrolled Let_def same)
      have "case rpc e (?n + 1) s Finalized of RpcError m \<Rightarrow> True | _ \<Rightarrow> False"
        using thr r0 by (simp add: L chainThrew_def)
      then show ?thesis using err by (simp add: L)
    next
      case r1: True
      show ?thesis
      proof (cases "rpc e (?n + 3) s Confirmed = RpcNull")
        case False
        then have L: "lookupLoop e s None 0 w1 =
            (rpcValue (rpc e (?n + 3) s Confirmed),
             w1\<lparr>chainLog := chainLog w @ [?c, ?f, Sleep 1000, ?c]\<rparr>)"
          using r0 r1 by (simp add: lookupLoop_unrolled Let_def same)
        have "case rpc e (?n + 3) s Confirmed of RpcError m \<Rightarrow> True | _ \<Rightarrow> False"
          using thr r0 r1 by (simp add: L chainThrew_def idx)
        then show ?thesis using err by (simp add: L)
      next
        case r2: True
        have L: "lookupLoop e s None 0 w1 =
            (rpcValue (rpc e (?n + 4) s Finalized),
             w1\<lparr>chainLog := chainLog w @ [?c, ?f, Sleep 1000, ?c, ?f]\<rparr>)"
          using r0 r1 r2 by (simp add: lookupLoop_unrolled Let_def same null)
        have "case rpc e (?n + 4) s Finalized of RpcError m \<Rightarrow> True | _ \<Rightarrow> False"
          using thr r0 r1 r2 by (simp add: L chainThrew_def idx)
        then show ?thesis using err by (simp add: L)
      qed
    qed
  qed
qed

lemma validateSOLPayment_chainThrew:
  assumes "chainThrew e w (snd (validateSOLPayment e price ep req w))"
  shows "fst (validateSOLPayment e price ep req w) = SolJson 500 SolVerificationFailed"
proof (cases "nodeEnv e \<noteq> ''development'' \<and> (\<exists>sig. hSignature req = Some sig \<and> sig \<noteq> [])")
  case False
  then have "snd (validateSOLPayment e price ep req w) = w"
    by (auto simp: validateSOLPayment_def solCheck_def solFinish_def split: option.splits)
  with assms show ?thesis by (simp add: chainThrew_none)
next
  case True
  then obtain sig where h: "nodeEnv e \<noteq> ''development''" "hSignature req = Some sig" "sig \<noteq> []"
    by auto
  let ?w1 = "w\<lparr>dbLog := dbLog w @ [SelectSig sig]\<rparr>"
  have w1: "chainLog ?w1 = chainLog w" by simp
  from h show ?thesis
  proof (cases rule: validateSOLPayment_cases [where w = w and price = price and ep = ep])
    case (replay row)
    with assms show ?thesis
      by (simp add: recordReplayAttempt_eq chainThrew_none split: option.splits)
  next
    case (rejected code reason)
    with assms have "chainThrew e w (snd (lookupLoop e sig None 0 ?w1))" by simp
    from lookupLoop_chainThrew [OF this w1] rejected show ?thesis by simp
  next
    case (recorded tx d)
    have "chainLog (snd (validateSOLPayment e price ep req w)) =
        chainLog (snd (lookupLoop e sig None 0 ?w1))"
      using recorded by simp
    from chainThrew_cong [OF this] assms
    have "chainThrew e w (snd (lookupLoop e sig None 0 ?w1))"
      by blast
    from lookupLoop_chainThrew [OF this w1] recorded show ?thesis by simp
  qed
qed

lemma rejection_replay:
  "\<not> isFirstUse r \<Longrightarrow>
     rejection r =
       Rejected 409 \<lparr>rError = error r, rCode = 409, is_replay_attack = True,
                     payment_details =
                       (case paymentRecord r of
                          None \<Rightarrow> None
                        | Some p \<Rightarrow>
                            Some \<lparr>first_used_at = firstUsedAt p, usage_count = usageCount p,
                                  original_endpoint = apiEndpoint p\<rparr>)\<rparr>"
  by (simp add: rejection_def)

subsection \<open>What the caller sees of an exception\<close>

text \<open>
  C10, as stated, fails: an exception of the chain client never reaches the
  \<^verbatim>\<open>catch\<close> of \<^verbatim>\<open>validatePayment\<close>. \<^verbatim>\<open>validateOnBlockchain\<close> catches it and
  returns an invalid result, which \<^verbatim>\<open>validatePayment\<close> reports with
  \<^verbatim>\<open>isFirstUse\<close> true, and the middleware answers 400 with \<^verbatim>\<open>is_replay_attack\<close>
  false. Here the node throws on every lookup.
\<close>

theorem chain_exception_is_first_use:
  "chainThrew envChainDown emptyWorld (snd (validatePayment envChainDown argsA emptyWorld))
   \<and> fst (validatePayment envChainDown argsA emptyWorld) =
       \<lparr>isValid = False, isFirstUse = True,
        error = Some (BlockchainValidationFailed ''timeout''), paymentRecord = None\<rparr>
   \<and> fst (validatePaymentMiddleware envChainDown priceA ''POST /api/query'' requestA emptyWorld) =
       Rejected 400 \<lparr>rError = Some (BlockchainValidationFailed ''timeout''), rCode = 400,
                     is_replay_attack = False, payment_details = None\<rparr>"
proof -
  have v: "validatePayment envChainDown argsA emptyWorld =
      (\<lparr>isValid = False, isFirstUse = True,
        error = Some (BlockchainValidationFailed ''timeout''), paymentRecord = None\<rparr>,
       emptyWorld\<lparr>dbLog := [SelectSig ''SIG_A''],
                   chainLog := [GetTransaction ''SIG_A'' Confirmed]\<rparr>)"
    by (simp add: validatePayment_def checkPayment_miss validateOnBlockchain_eq invalidTx_def
          finishPayment_def rejectFirstUse_def Let_def)
  have a: "\<lparr>vSignature = ''SIG_A'', expectedAmount = 100000, expectedAsset = ''native'',
            vEndpoint = ''POST /api/query'', vClientIP = Some ''10.0.0.1'',
            vUserAgent = Some ''curl'', vNow = 1000\<rparr> = argsA"
    by (simp add: argsA_def)
  show ?thesis
    by (simp add: v chainThrew_def validatePaymentMiddleware_def priceA_threshold a rejection_def)
qed

text \<open>
  C10, amended. For a request with its three headers, outside development mode, and a
  price that converts to lamports: when a
  statement sent to the database throws during \<^verbatim>\<open>validatePayment\<close>, the result
  has \<^verbatim>\<open>isFirstUse\<close> false and the error \<^verbatim>\<open>Payment validation failed\<close>, and the
  middleware answers 409 with \<^verbatim>\<open>is_replay_attack\<close> true, as it does for every
  rejection with \<^verbatim>\<open>isFirstUse\<close> false; when the chain lookup throws, the result has
  \<^verbatim>\<open>isFirstUse\<close> true and the error \<^verbatim>\<open>Blockchain validation failed\<close>, and the
  middleware answers 400 with \<^verbatim>\<open>is_replay_attack\<close> false.
\<close>

theorem storage_exception_as_replay:
  assumes "nodeEnv e \<noteq> ''development''"
    and "hSignature req = Some sig" "sig \<noteq> []"
    and "hNetwork req = Some net" "net \<noteq> []"
    and "hAmount req = Some amt" "amt \<noteq> []"
    and price: "expectedLamports price = Some expected"
    and a: "a = \<lparr>vSignature = sig, expectedAmount = expected, expectedAsset = ''native'',
                 vEndpoint = ep, vClientIP = clientAddr req, vUserAgent = hUserAgent req,
                 vNow = arrival req\<rparr>"
  shows "(dbThrew e w (snd (validatePayment e a w)) \<longrightarrow>
           (\<exists>m. fst (validatePayment e a w) =
                   \<lparr>isValid = False, isFirstUse = False,
                    error = Some (PaymentValidationFailed m), paymentRecord = None\<rparr>
               \<and> fst (validatePaymentMiddleware e price ep req w) =
                   Rejected 409 \<lparr>rError = Some (PaymentValidationFailed m), rCode = 409,
                                 is_replay_attack = True, payment_details = None\<rparr>))
     \<and> (chainThrew e w (snd (validatePayment e a w)) \<longrightarrow>
           (\<exists>m. fst (validatePayment e a w) =
                   \<lparr>isValid = False, isFirstUse = True,
                    error = Some (BlockchainValidationFailed m), paymentRecord = None\<rparr>
               \<and> fst (validatePaymentMiddleware e price ep req w) =
                   Rejected 400 \<lparr>rError = Some (BlockchainValidationFailed m), rCode = 400,
                                 is_replay_attack = False, payment_details = None\<rparr>))
     \<and> (\<forall>r. \<not> isFirstUse r \<longrightarrow>
           (\<exists>details. rejection r =
              Rejected 409 \<lparr>rError = error r, rCode = 409, is_replay_attack = True,
                            payment_details = details\<rparr>))"
proof -
  note mw = middleware_with_headers [OF assms(1-8), of ep w, folded a]
  have db: "\<exists>m. fst (validatePayment e a w) =
                   \<lparr>isValid = False, isFirstUse = False,
                    error = Some (PaymentValidationFailed m), paymentRecord = None\<rparr>
               \<and> fst (validatePaymentMiddleware e price ep req w) =
                   Rejected 409 \<lparr>rError = Some (PaymentValidationFailed m), rCode = 409,
                                 is_replay_attack = True, payment_details = None\<rparr>"
    if thr: "dbThrew e w (snd (validatePayment e a w))"
  proof -
    obtain m where m: "fst (validatePayment e a w) = caught m"
      using validatePayment_dbThrew [OF thr] by blast
    then show ?thesis
      by (intro exI [of _ m]) (simp add: mw Let_def caught_def rejection_def)
  qed
  have chain: "\<exists>m. fst (validatePayment e a w) =
                   \<lparr>isValid = False, isFirstUse = True,
                    error = Some (BlockchainValidationFailed m), paymentRecord = None\<rparr>
               \<and> fst (validatePaymentMiddleware e price ep req w) =
                   Rejected 400 \<lparr>rError = Some (BlockchainValidationFailed m), rCode = 400,
                                 is_replay_attack = False, payment_details = None\<rparr>"
    if thr: "chainThrew e w (snd (validatePayment e a w))"
  proof -
    obtain m where m: "fst (validatePayment e a w) =
        rejectFirstUse (Some (BlockchainValidationFailed m))"
      using validatePayment_chainThrew [OF thr] by blast
    then show ?thesis
      by (intro exI [of _ m]) (simp add: mw Let_def rejectFirstUse_def rejection_def)
  qed
  have gate: "\<exists>details. rejection r =
              Rejected 409 \<lparr>rError = error r, rCode = 409, is_replay_attack = True,
                            payment_details = details\<rparr>"
    if "\<not> isFirstUse r" for r
    using rejection_replay [OF that] by blast
  show ?thesis
    using db chain gate by blast
qed

theorem storage_exception_as_replay_witness:
  "nodeEnv envDbDown \<noteq> ''development''
   \<and> hSignature requestA = Some ''SIG_A'' \<and> hNetwork requestA = Some ''solana''
   \<and> hAmount requestA = Some ''100000''
   \<and> dbThrew envDbDown emptyWorld (snd (validatePayment envDbDown argsA emptyWorld))
   \<and> (\<exists>m. fst (validatePaymentMiddleware envDbDown priceA ''POST /api/query'' requestA
                  emptyWorld) =
            Rejected 409 \<lparr>rError = Some (PaymentValidationFailed m), rCode = 409,
                          is_replay_attack = True, payment_details = None\<rparr>)
   \<and> chainThrew envChainDown emptyWorld (snd (validatePayment envChainDown argsA emptyWorld))
   \<and> (\<exists>m. fst (validatePaymentMiddleware envChainDown priceA ''POST /api/query'' requestA
                  emptyWorld) =
            Rejected 400 \<lparr>rError = Some (BlockchainValidationFailed m), rCode = 400,
                          is_replay_attack = False, payment_details = None\<rparr>)"
proof -
  have h: "nodeEnv e \<noteq> ''development''" "hSignature requestA = Some ''SIG_A''" "''SIG_A'' \<noteq> []"
    "hNetwork requestA = Some ''solana''" "''solana'' \<noteq> []"
    "hAmount requestA = Some ''100000''" "''100000'' \<noteq> []"
    "expectedLamports priceA = Some 100000"
    "argsA = \<lparr>vSignature = ''SIG_A'', expectedAmount = 100000, expectedAsset = ''native'',
                 vEndpoint = ''POST /api/query'', vClientIP = clientAddr requestA,
                 vUserAgent = hUserAgent requestA, vNow = arrival requestA\<rparr>"
    if "e = envDbDown \<or> e = envChainDown" for e
    using that by (auto simp: argsA_def priceA_threshold)
  have db: "dbThrew envDbDown emptyWorld (snd (validatePayment envDbDown argsA emptyWorld))"
    by (simp add: validatePayment_def checkPayment_fault [where m = "''connection refused''"]
          finishPayment_def dbThrew_def)
  have chain: "chainThrew envChainDown emptyWorld
      (snd (validatePayment envChainDown argsA emptyWorld))"
    by (simp add: validatePayment_def checkPayment_miss validateOnBlockchain_eq invalidTx_def
          finishPayment_def chainThrew_def Let_def)
  have p1: "\<exists>m. fst (validatePaymentMiddleware envDbDown priceA ''POST /api/query'' requestA
                  emptyWorld) =
            Rejected 409 \<lparr>rError = Some (PaymentValidationFailed m), rCode = 409,
                          is_replay_attack = True, payment_details = None\<rparr>"
    using db storage_exception_as_replay [OF h [of envDbDown], of emptyWorld] by blast
  have p2: "\<exists>m. fst (validatePaymentMiddleware envChainDown priceA ''POST /api/query'' requestA
                  emptyWorld) =
            Rejected 400 \<lparr>rError = Some (BlockchainValidationFailed m), rCode = 400,
                          is_replay_attack = False, payment_details = None\<rparr>"
    using chain storage_exception_as_replay [OF h [of envChainDown], of emptyWorld] by blast
  show ?thesis
    using db chain p1 p2 by simp
qed

subsection \<open>Failing closed\<close>

text \<open>
  C2, as stated, fails on \<^verbatim>\<open>validateSOLPayment\<close>. \<open>SIG_A\<close> has a row already; the
  database throws on every statement. \<^verbatim>\<open>isSignatureUsed\<close> answers \<^verbatim>\<open>false\<close>, the
  chain checks pass, the insert throws and is dropped, and the handler calls
  \<^verbatim>\<open>next()\<close>: the request is accepted.
\<close>

theorem storage_failure_accepted:
  "ledger usedWorld ''SIG_A'' = Some rowA
   \<and> dbThrew envDbDown usedWorld
        (snd (validateSOLPayment envDbDown priceA ''POST /api/query'' requestA usedWorld))
   \<and> fst (validateSOLPayment envDbDown priceA ''POST /api/query'' requestA usedWorld) =
        SolNext (Some \<lparr>paymentVerified = True, paymentType = ''SOL'',
                        paymentAmount = lamportsToSol 150000, paymentSignature = ''SIG_A''\<rparr>)"
proof -
  have c: "solCheck envDbDown priceA requestA usedWorld =
     (SolToRecord ''SIG_A'' (lamportsToSol 150000),
      usedWorld\<lparr>dbLog := dbLog usedWorld @ [SelectSig ''SIG_A''],
         chainLog := chainLog usedWorld @ [GetTransaction ''SIG_A'' Confirmed]\<rparr>)"
    by (rule solCheck_A) simp_all
  show ?thesis
    by (auto simp add: validateSOLPayment_def c solFinish_def solRecord_def
          simpleRecordPayment_eq dbThrew_def atLeastLessThanSuc)
qed

text \<open>
  C2, amended. \<^verbatim>\<open>PaymentTracker.validatePayment\<close> never returns a valid result when
  a database statement or the chain lookup threw during the call.
  \<^verbatim>\<open>validateSOLPayment\<close> answers 500 when a chain lookup threw. For the database it
  does not fail closed, by its own comments: a lookup that throws is answered
  \<^verbatim>\<open>false\<close> (not used), and the recording step ends in \<^verbatim>\<open>next()\<close> whatever
  the insert does.
\<close>

theorem fail_closed_paths:
  "(dbThrew e w (snd (validatePayment e a w)) \<or> chainThrew e w (snd (validatePayment e a w))
      \<longrightarrow> \<not> isValid (fst (validatePayment e a w)))
   \<and> (chainThrew e w (snd (validateSOLPayment e price ep req w)) \<longrightarrow>
        fst (validateSOLPayment e price ep req w) = SolJson 500 SolVerificationFailed)
   \<and> (dbFault e (length (dbLog w)) \<noteq> None \<longrightarrow> fst (isSignatureUsed e sig w) = False)
   \<and> fst (solRecord e ep req sig d w) =
        SolNext (Some \<lparr>paymentVerified = True, paymentType = ''SOL'',
                        paymentAmount = d, paymentSignature = sig\<rparr>)"
proof -
  have a: "\<not> isValid (fst (validatePayment e a w))"
    if t: "dbThrew e w (snd (validatePayment e a w)) \<or> chainThrew e w (snd (validatePayment e a w))"
    using t validatePayment_dbThrew [of e w a] validatePayment_chainThrew [of e w a]
    by (auto simp: caught_def rejectFirstUse_def)
  have b: "fst (isSignatureUsed e sig w) = False" if "dbFault e (length (dbLog w)) \<noteq> None"
    using that by (auto simp: isSignatureUsed_eq)
  show ?thesis
    using a b validateSOLPayment_chainThrew [of e w price ep req]
    by (simp add: solRecord_def)
qed

theorem fail_closed_paths_witness:
  "dbThrew envDbDown emptyWorld (snd (validatePayment envDbDown argsA emptyWorld))
   \<and> \<not> isValid (fst (validatePayment envDbDown argsA emptyWorld))
   \<and> chainThrew envChainDown emptyWorld (snd (validatePayment envChainDown argsA emptyWorld))
   \<and> \<not> isValid (fst (validatePayment envChainDown argsA emptyWorld))
   \<and> chainThrew envChainDown emptyWorld
        (snd (validateSOLPayment envChainDown priceA ''POST /api/query'' requestA emptyWorld))
   \<and> fst (validateSOLPayment envChainDown priceA ''POST /api/query'' requestA emptyWorld) =
        SolJson 500 SolVerificationFailed
   \<and> dbFault envDbDown (length (dbLog usedWorld)) \<noteq> None
   \<and> fst (isSignatureUsed envDbDown ''SIG_A'' usedWorld) = False"
proof -
  have db: "dbThrew envDbDown emptyWorld (snd (validatePayment envDbDown argsA emptyWorld))"
    by (simp add: validatePayment_def checkPayment_fault [where m = "''connection refused''"]
          finishPayment_def dbThrew_def)
  have chain: "chainThrew envChainDown emptyWorld
      (snd (validatePayment envChainDown argsA emptyWorld))"
    by (simp add: validatePayment_def checkPayment_miss validateOnBlockchain_eq invalidTx_def
          finishPayment_def chainThrew_def Let_def)
  have "nodeEnv envChainDown \<noteq> ''development''" by simp
  from solCheck_unused [OF this, of requestA "''SIG_A''" emptyWorld priceA]
  have "solCheck envChainDown priceA requestA emptyWorld =
      (SolDecided (SolJson 500 SolVerificationFailed),
       emptyWorld\<lparr>dbLog := [SelectSig ''SIG_A''],
                   chainLog := [GetTransaction ''SIG_A'' Confirmed]\<rparr>)"
    by (simp add: lookupLoop_unrolled Let_def rpcValue_def)
  then have sol: "chainThrew envChainDown emptyWorld
        (snd (validateSOLPayment envChainDown priceA ''POST /api/query'' requestA emptyWorld))"
    by (simp add: validateSOLPayment_def solFinish_def chainThrew_def)
  have f: "dbFault envDbDown (length (dbLog usedWorld)) \<noteq> None" by simp
  show ?thesis
    using db chain sol f
      fail_closed_paths [of envDbDown emptyWorld argsA priceA "''POST /api/query''" requestA
        "''SIG_A''" 0]
      fail_closed_paths [of envChainDown emptyWorld argsA priceA "''POST /api/query''" requestA
        "''SIG_A''" 0]
      fail_closed_paths [of envDbDown usedWorld argsA priceA "''POST /api/query''" requestA
        "''SIG_A''" 0]
    by simp
qed

subsection \<open>Two requests with one signature\<close>

text \<open>
  C3. \<^verbatim>\<open>validateSOLPayment\<close> reaches its recording step for \<open>SIG_A\<close> when a row for
  \<open>SIG_A\<close> exists already, as the second of two racing requests does. The insert
  throws the duplicate-key error of the \<^verbatim>\<open>UNIQUE\<close> constraint;
  \<^verbatim>\<open>SimplePaymentTracker.recordPayment\<close> drops it, and the handler calls
  \<^verbatim>\<open>next()\<close>: the request is accepted. The lookup step, for the same signature in
  the same world, answers 409 \<^verbatim>\<open>already used\<close>. (\<^verbatim>\<open>PaymentTracker.validatePayment\<close>
  never reaches its insert.)
\<close>

theorem duplicate_key_dropped:
  "ledger usedWorld ''SIG_A'' = Some rowA
   \<and> simpleInsert envA ''SIG_A'' (lamportsToSol 150000) ''SOL'' ''10.0.0.1'' ''curl''
        ''POST /api/query'' 1000 usedWorld =
       (Inl duplicateKey,
        usedWorld\<lparr>dbLog := [SelectSig ''SIG_A'', InsertSig ''SIG_A'', InsertSig ''SIG_A''],
                    nextId := 3\<rparr>)
   \<and> solFinish envA ''POST /api/query'' requestA
        (SolToRecord ''SIG_A'' (lamportsToSol 150000), usedWorld) =
       (SolNext (Some \<lparr>paymentVerified = True, paymentType = ''SOL'',
                        paymentAmount = lamportsToSol 150000, paymentSignature = ''SIG_A''\<rparr>),
        usedWorld\<lparr>dbLog := [SelectSig ''SIG_A'', InsertSig ''SIG_A'', InsertSig ''SIG_A''],
                    nextId := 3\<rparr>)
   \<and> fst (validateSOLPayment envA priceA ''POST /api/query'' requestA usedWorld) =
       SolJson 409 SolAlreadyUsed"
proof -
  have ins: "simpleInsert envA ''SIG_A'' (lamportsToSol 150000) ''SOL'' ''10.0.0.1'' ''curl''
        ''POST /api/query'' 1000 usedWorld =
       (Inl duplicateKey,
        usedWorld\<lparr>dbLog := [SelectSig ''SIG_A'', InsertSig ''SIG_A'', InsertSig ''SIG_A''],
                    nextId := 3\<rparr>)"
    by (simp add: simpleInsert_eq)
  have fin: "solFinish envA ''POST /api/query'' requestA
        (SolToRecord ''SIG_A'' (lamportsToSol 150000), usedWorld) =
       (SolNext (Some \<lparr>paymentVerified = True, paymentType = ''SOL'',
                        paymentAmount = lamportsToSol 150000, paymentSignature = ''SIG_A''\<rparr>),
        usedWorld\<lparr>dbLog := [SelectSig ''SIG_A'', InsertSig ''SIG_A'', InsertSig ''SIG_A''],
                    nextId := 3\<rparr>)"
    by (simp add: solFinish_def solRecord_def simpleRecordPayment_def ins)
  have chk: "solCheck envA priceA requestA usedWorld =
     (SolDecided (SolJson 409 SolAlreadyUsed),
      recordReplayAttempt envA ''SIG_A'' (orUnknown (clientAddr requestA))
        (orUnknown (hUserAgent requestA))
        (usedWorld\<lparr>dbLog := dbLog usedWorld @ [SelectSig ''SIG_A'']\<rparr>))"
    by (rule solCheck_used [where row = rowA]) simp_all
  have replay: "fst (validateSOLPayment envA priceA ''POST /api/query'' requestA usedWorld) =
       SolJson 409 SolAlreadyUsed"
    by (simp add: validateSOLPayment_def chk solFinish_def)
  have row: "ledger usedWorld ''SIG_A'' = Some rowA"
    by simp
  show ?thesis
    using row ins fin replay by blast
qed

text \<open>
  C1. Two requests present \<open>SIG_A\<close> to \<^verbatim>\<open>validateSOLPayment\<close> at once: both pass
  \<^verbatim>\<open>isSignatureUsed\<close> and the chain checks, the second insert violates the
  constraint, \<^verbatim>\<open>SimplePaymentTracker.recordPayment\<close> drops the exception, and both
  handlers call \<^verbatim>\<open>next()\<close>. Two requests are accepted for one signature, and the
  one row that exists still has \<^verbatim>\<open>usage_count\<close> 1.
\<close>

theorem race_accepts_both:
  "fst (raceValidateSOLPayment envA priceA ''POST /api/query'' requestA requestA emptyWorld) =
     SolNext (Some \<lparr>paymentVerified = True, paymentType = ''SOL'',
                     paymentAmount = lamportsToSol 150000, paymentSignature = ''SIG_A''\<rparr>)
   \<and> fst (snd (raceValidateSOLPayment envA priceA ''POST /api/query'' requestA requestA
                 emptyWorld)) =
     SolNext (Some \<lparr>paymentVerified = True, paymentType = ''SOL'',
                     paymentAmount = lamportsToSol 150000, paymentSignature = ''SIG_A''\<rparr>)
   \<and> dbLog (snd (snd (raceValidateSOLPayment envA priceA ''POST /api/query'' requestA requestA
                 emptyWorld))) =
     [SelectSig ''SIG_A'', SelectSig ''SIG_A'', InsertSig ''SIG_A'', InsertSig ''SIG_A'']
   \<and> map_option usageCount
        (ledger (snd (snd (raceValidateSOLPayment envA priceA ''POST /api/query'' requestA
                 requestA emptyWorld))) ''SIG_A'') = Some 1"
proof -
  have c: "solCheck envA priceA requestA w =
     (SolToRecord ''SIG_A'' (lamportsToSol 150000),
      w\<lparr>dbLog := dbLog w @ [SelectSig ''SIG_A''],
         chainLog := chainLog w @ [GetTransaction ''SIG_A'' Confirmed]\<rparr>)"
    if "ledger w ''SIG_A'' = None" for w
    using that by (intro solCheck_A) simp_all
  show ?thesis
    by (simp add: raceValidateSOLPayment_def c solFinish_def solRecord_def
          simpleRecordPayment_eq)
qed

end
